theory Spec2Isabelle
  imports Main "HOL-Library.Word"
begin

section \<open>Solidity values, reverts and the OpenZeppelin base contracts\<close>

text \<open>
  The contracts are Solidity 0.8.19. An address is a 160-bit word and \<open>address(0)\<close> is
  \<open>0\<close>. A \<open>uint256\<close> is a natural number; Solidity 0.8 checks every \<open>+\<close>, \<open>-\<close>, \<open>*\<close>,
  \<open>++\<close> and \<open>--\<close> and reverts with \<open>Panic(0x11)\<close> when the result leaves
  \<open>0 .. 2^256 - 1\<close>, which the model writes out as a branch where the source computes.
  A \<open>mapping\<close> is a total function (a key never written reads as zero). A call that
  reverts returns \<open>Inl\<close> of the reason and leaves the stored state as it was; a call that
  returns gives \<open>Inr\<close> of the new state. Events do not change state and are left out.
\<close>

type_synonym address = "160 word"

datatype error = Revert string | Panic nat

definition MAX_UINT256 :: nat where
  "MAX_UINT256 = 2 ^ 256 - 1"

definition ARITHMETIC_PANIC :: nat where
  "ARITHMETIC_PANIC = 17"

text \<open>
  \<open>Ownable\<close> and \<open>Pausable\<close> (OpenZeppelin 4.x) hold one state variable each; the
  contracts inherit them, so their records extend these. \<open>ReentrancyGuard\<close> holds a
  flag that every guarded function sets on entry and clears on return: between two
  transactions it is always clear, so it is not part of the stored state here. It is
  set only while a guarded function of the Vault makes its external call; the Vault's
  model says what a call back into the contract does then. The DAO and the factories
  make no call that can call back.
\<close>

record ownable =
  owner :: address

record pausable = ownable +
  paused :: bool

definition transferOwnership :: "'a ownable_scheme \<Rightarrow> address \<Rightarrow> address \<Rightarrow> error + 'a ownable_scheme" where
  "transferOwnership s sender newOwner =
     (if sender \<noteq> owner s then Inl (Revert ''Ownable: caller is not the owner'')
      else if newOwner = 0 then Inl (Revert ''Ownable: new owner is the zero address'')
      else Inr (s\<lparr>owner := newOwner\<rparr>))"

definition renounceOwnership :: "'a ownable_scheme \<Rightarrow> address \<Rightarrow> error + 'a ownable_scheme" where
  "renounceOwnership s sender =
     (if sender \<noteq> owner s then Inl (Revert ''Ownable: caller is not the owner'')
      else Inr (s\<lparr>owner := 0\<rparr>))"

text \<open>
  The loop that four functions of the repository share:
  \<^verbatim>\<open>for (i = 0; i < list.length; i++)
       if (list[i] == x) { list[i] = list[list.length - 1]; list.pop(); break; }\<close>
\<close>

function swapRemoveFrom :: "nat \<Rightarrow> address \<Rightarrow> address list \<Rightarrow> address list" where
  "swapRemoveFrom i x xs =
     (if i < length xs
      then (if xs ! i = x then butlast (xs[i := xs ! (length xs - 1)])
            else swapRemoveFrom (Suc i) x xs)
      else xs)"
  by pat_completeness auto
termination
  by (relation "measure (\<lambda>(i, x, xs). length xs - i)") auto

declare swapRemoveFrom.simps [simp del]

definition swapRemove :: "address \<Rightarrow> address list \<Rightarrow> address list" where
  "swapRemove x xs = swapRemoveFrom 0 x xs"

section \<open>DAO.sol\<close>

record proposal =
  proposal_id :: nat
  title :: string
  description :: string
  yesVotes :: nat
  noVotes :: nat
  deadline :: nat
  executed :: bool
  proposer :: address
  hasVoted :: "address \<Rightarrow> bool"

record dao = pausable +
  name :: string
  members :: "address \<Rightarrow> bool"
  proposals :: "nat \<Rightarrow> proposal"
  memberList :: "address list"
  proposalCount :: nat
  memberCount :: nat
  attachedVault :: address
  quorumPercentage :: nat

definition MIN_PROPOSAL_DURATION :: nat where
  "MIN_PROPOSAL_DURATION = 3600"

definition MAX_PROPOSAL_DURATION :: nat where
  "MAX_PROPOSAL_DURATION = 2592000"

definition zero_proposal :: proposal where
  "zero_proposal = \<lparr>proposal_id = 0, title = [], description = [], yesVotes = 0, noVotes = 0,
     deadline = 0, executed = False, proposer = 0, hasVoted = (\<lambda>_. False)\<rparr>"

definition DAO_constructor :: "string \<Rightarrow> address \<Rightarrow> error + dao" where
  "DAO_constructor name' owner' =
     (if \<not> length name' > 0 then Inl (Revert ''DAO name cannot be empty'')
      else if \<not> owner' \<noteq> 0 then Inl (Revert ''Invalid owner address'')
      else Inr \<lparr>owner = owner', paused = False, name = name',
                members = (\<lambda>_. False)(owner' := True),
                proposals = (\<lambda>_. zero_proposal),
                memberList = [owner'], proposalCount = 0, memberCount = 1,
                attachedVault = 0, quorumPercentage = 51\<rparr>)"

definition addMember :: "dao \<Rightarrow> address \<Rightarrow> address \<Rightarrow> error + dao" where
  "addMember s sender member =
     (if sender \<noteq> owner s then Inl (Revert ''Ownable: caller is not the owner'')
      else if paused s then Inl (Revert ''Pausable: paused'')
      else if \<not> member \<noteq> 0 then Inl (Revert ''Invalid member address'')
      else if \<not> \<not> members s member then Inl (Revert ''Already a member'')
      else if \<not> memberCount s < 1000 then Inl (Revert ''Max members reached'')
      else Inr (s\<lparr>members := (members s)(member := True),
                  memberList := memberList s @ [member],
                  memberCount := memberCount s + 1\<rparr>))"

definition removeMember :: "dao \<Rightarrow> address \<Rightarrow> address \<Rightarrow> error + dao" where
  "removeMember s sender member =
     (if sender \<noteq> owner s then Inl (Revert ''Ownable: caller is not the owner'')
      else if paused s then Inl (Revert ''Pausable: paused'')
      else if \<not> member \<noteq> 0 then Inl (Revert ''Invalid member address'')
      else if \<not> members s member then Inl (Revert ''Not a member'')
      else if \<not> member \<noteq> owner s then Inl (Revert ''Cannot remove owner'')
      else if memberCount s = 0 then Inl (Panic ARITHMETIC_PANIC)
      else Inr (s\<lparr>members := (members s)(member := False),
                  memberList := swapRemove member (memberList s),
                  memberCount := memberCount s - 1\<rparr>))"

definition propose :: "dao \<Rightarrow> address \<Rightarrow> nat \<Rightarrow> string \<Rightarrow> string \<Rightarrow> nat \<Rightarrow> error + (nat \<times> dao)" where
  "propose s sender now title' description' duration =
     (if \<not> (members s sender \<or> sender = owner s) then Inl (Revert ''Not a member'')
      else if paused s then Inl (Revert ''Pausable: paused'')
      else if \<not> length title' > 0 then Inl (Revert ''Title cannot be empty'')
      else if \<not> length description' > 0 then Inl (Revert ''Description cannot be empty'')
      else if \<not> (duration \<ge> MIN_PROPOSAL_DURATION \<and> duration \<le> MAX_PROPOSAL_DURATION)
        then Inl (Revert ''Invalid duration'')
      else if proposalCount s + 1 > MAX_UINT256 then Inl (Panic ARITHMETIC_PANIC)
      else if now + duration > MAX_UINT256 then Inl (Panic ARITHMETIC_PANIC)
      else let proposalId = proposalCount s + 1 in
        Inr (proposalId,
             s\<lparr>proposalCount := proposalId,
               proposals := (proposals s)(proposalId := (proposals s proposalId)
                 \<lparr>proposal_id := proposalId, title := title', description := description',
                  deadline := now + duration, proposer := sender\<rparr>)\<rparr>))"

definition vote :: "dao \<Rightarrow> address \<Rightarrow> nat \<Rightarrow> nat \<Rightarrow> bool \<Rightarrow> error + dao" where
  "vote s sender now proposalId support =
     (if \<not> (members s sender \<or> sender = owner s) then Inl (Revert ''Not a member'')
      else if paused s then Inl (Revert ''Pausable: paused'')
      else if \<not> (proposalId > 0 \<and> proposalId \<le> proposalCount s)
        then Inl (Revert ''Invalid proposal ID'')
      else let p = proposals s proposalId in
        if \<not> now < deadline p then Inl (Revert ''Voting period ended'')
        else if \<not> \<not> hasVoted p sender then Inl (Revert ''Already voted'')
        else if \<not> \<not> executed p then Inl (Revert ''Proposal already executed'')
        else if support \<and> yesVotes p + 1 > MAX_UINT256 then Inl (Panic ARITHMETIC_PANIC)
        else if \<not> support \<and> noVotes p + 1 > MAX_UINT256 then Inl (Panic ARITHMETIC_PANIC)
        else let p1 = p\<lparr>hasVoted := (hasVoted p)(sender := True)\<rparr>;
                 p2 = (if support then p1\<lparr>yesVotes := yesVotes p1 + 1\<rparr>
                       else p1\<lparr>noVotes := noVotes p1 + 1\<rparr>)
             in Inr (s\<lparr>proposals := (proposals s)(proposalId := p2)\<rparr>))"

definition executeProposal :: "dao \<Rightarrow> address \<Rightarrow> nat \<Rightarrow> nat \<Rightarrow> error + dao" where
  "executeProposal s sender now proposalId =
     (if paused s then Inl (Revert ''Pausable: paused'')
      else if \<not> (proposalId > 0 \<and> proposalId \<le> proposalCount s)
        then Inl (Revert ''Invalid proposal ID'')
      else let p = proposals s proposalId in
        if \<not> now \<ge> deadline p then Inl (Revert ''Voting period not ended'')
        else if \<not> \<not> executed p then Inl (Revert ''Proposal already executed'')
        else if yesVotes p + noVotes p > MAX_UINT256 then Inl (Panic ARITHMETIC_PANIC)
        else if memberCount s * quorumPercentage s > MAX_UINT256 then Inl (Panic ARITHMETIC_PANIC)
        else let totalVotes = yesVotes p + noVotes p;
                 requiredQuorum = (memberCount s * quorumPercentage s) div 100
             in if \<not> totalVotes \<ge> requiredQuorum then Inl (Revert ''Quorum not reached'')
                else if \<not> yesVotes p > noVotes p then Inl (Revert ''Proposal rejected'')
                else Inr (s\<lparr>proposals := (proposals s)(proposalId := p\<lparr>executed := True\<rparr>)\<rparr>))"

definition attachVault :: "dao \<Rightarrow> address \<Rightarrow> address \<Rightarrow> error + dao" where
  "attachVault s sender vaultAddress =
     (if sender \<noteq> owner s then Inl (Revert ''Ownable: caller is not the owner'')
      else if paused s then Inl (Revert ''Pausable: paused'')
      else if \<not> vaultAddress \<noteq> 0 then Inl (Revert ''Invalid vault address'')
      else if \<not> attachedVault s = 0 then Inl (Revert ''Vault already attached'')
      else Inr (s\<lparr>attachedVault := vaultAddress\<rparr>))"

definition detachVault :: "dao \<Rightarrow> address \<Rightarrow> error + dao" where
  "detachVault s sender =
     (if sender \<noteq> owner s then Inl (Revert ''Ownable: caller is not the owner'')
      else if paused s then Inl (Revert ''Pausable: paused'')
      else if \<not> attachedVault s \<noteq> 0 then Inl (Revert ''No vault attached'')
      else Inr (s\<lparr>attachedVault := 0\<rparr>))"

definition setQuorumPercentage :: "dao \<Rightarrow> address \<Rightarrow> nat \<Rightarrow> error + dao" where
  "setQuorumPercentage s sender quorumPercentage' =
     (if sender \<noteq> owner s then Inl (Revert ''Ownable: caller is not the owner'')
      else if \<not> (quorumPercentage' > 0 \<and> quorumPercentage' \<le> 100)
        then Inl (Revert ''Invalid quorum percentage'')
      else Inr (s\<lparr>quorumPercentage := quorumPercentage'\<rparr>))"

text \<open>
  \<open>pause\<close> and \<open>unpause\<close> are \<open>onlyOwner\<close> wrappers of Pausable's \<open>_pause\<close> (which
  requires the contract not paused) and \<open>_unpause\<close> (which requires it paused); DAO,
  DAOFactory and (for \<open>unpause\<close>) Vault declare them with the same text.
\<close>

definition pause :: "'a pausable_scheme \<Rightarrow> address \<Rightarrow> error + 'a pausable_scheme" where
  "pause s sender =
     (if sender \<noteq> owner s then Inl (Revert ''Ownable: caller is not the owner'')
      else if paused s then Inl (Revert ''Pausable: paused'')
      else Inr (s\<lparr>paused := True\<rparr>))"

definition unpause :: "'a pausable_scheme \<Rightarrow> address \<Rightarrow> error + 'a pausable_scheme" where
  "unpause s sender =
     (if sender \<noteq> owner s then Inl (Revert ''Ownable: caller is not the owner'')
      else if \<not> paused s then Inl (Revert ''Pausable: not paused'')
      else Inr (s\<lparr>paused := False\<rparr>))"

text \<open>
  A transaction is one external call by \<open>sender\<close> at block time \<open>now\<close>. A call that
  reverts leaves the state as it was.
\<close>

datatype dao_op =
    AddMember address
  | RemoveMember address
  | Propose string string nat
  | Vote nat bool
  | ExecuteProposal nat
  | AttachVault address
  | DetachVault
  | SetQuorumPercentage nat
  | PauseDAO
  | UnpauseDAO
  | TransferOwnershipDAO address
  | RenounceOwnershipDAO

fun dao_call :: "dao \<Rightarrow> address \<Rightarrow> nat \<Rightarrow> dao_op \<Rightarrow> error + dao" where
  "dao_call s sender now (AddMember m) = addMember s sender m"
| "dao_call s sender now (RemoveMember m) = removeMember s sender m"
| "dao_call s sender now (Propose t d dur) = map_sum (\<lambda>e. e) snd (propose s sender now t d dur)"
| "dao_call s sender now (Vote i b) = vote s sender now i b"
| "dao_call s sender now (ExecuteProposal i) = executeProposal s sender now i"
| "dao_call s sender now (AttachVault v) = attachVault s sender v"
| "dao_call s sender now DetachVault = detachVault s sender"
| "dao_call s sender now (SetQuorumPercentage q) = setQuorumPercentage s sender q"
| "dao_call s sender now PauseDAO = pause s sender"
| "dao_call s sender now UnpauseDAO = unpause s sender"
| "dao_call s sender now (TransferOwnershipDAO a) = transferOwnership s sender a"
| "dao_call s sender now RenounceOwnershipDAO = renounceOwnership s sender"

definition dao_tx :: "dao \<Rightarrow> address \<times> nat \<times> dao_op \<Rightarrow> dao" where
  "dao_tx s t = (case t of (sender, now, op) \<Rightarrow>
     (case dao_call s sender now op of Inl e \<Rightarrow> s | Inr s' \<Rightarrow> s'))"

text \<open>The states a deployed DAO can be in: the constructor's, then any transactions.\<close>

inductive dao_reachable :: "dao \<Rightarrow> bool" where
  dao_init: "DAO_constructor name' owner' = Inr s \<Longrightarrow> dao_reachable s"
| dao_step: "dao_reachable s \<Longrightarrow> dao_call s sender now op = Inr s' \<Longrightarrow> dao_reachable s'"





section \<open>Vault.sol\<close>

record spendingProposal =
  sp_id :: nat
  token :: address
  amount :: nat
  recipient :: address
  sp_description :: string
  approvals :: nat
  sp_deadline :: nat
  sp_executed :: bool
  hasApproved :: "address \<Rightarrow> bool"

record vault = pausable +
  daoAddress :: address
  withdrawalLimit :: nat
  requiredSignatures :: nat
  spendingProposalCount :: nat
  authorizedSigners :: "address \<Rightarrow> bool"
  spendingProposals :: "nat \<Rightarrow> spendingProposal"
  tokenBalances :: "address \<Rightarrow> nat"
  signerList :: "address list"
  supportedTokens :: "address list"

definition MAX_SIGNERS :: nat where
  "MAX_SIGNERS = 20"

definition MIN_SIGNATURES :: nat where
  "MIN_SIGNATURES = 1"

definition PROPOSAL_DURATION :: nat where
  "PROPOSAL_DURATION = 604800"

definition zero_spendingProposal :: spendingProposal where
  "zero_spendingProposal = \<lparr>sp_id = 0, token = 0, amount = 0, recipient = 0,
     sp_description = [], approvals = 0, sp_deadline = 0, sp_executed = False,
     hasApproved = (\<lambda>_. False)\<rparr>"

text \<open>Ownable's constructor makes the deployer (\<open>msg.sender\<close>) the owner.\<close>

definition Vault_constructor :: "address \<Rightarrow> address \<Rightarrow> nat \<Rightarrow> nat \<Rightarrow> error + vault" where
  "Vault_constructor sender daoAddress' withdrawalLimit' requiredSignatures' =
     (if \<not> daoAddress' \<noteq> 0 then Inl (Revert ''Invalid DAO address'')
      else if \<not> requiredSignatures' \<ge> MIN_SIGNATURES
        then Inl (Revert ''Invalid signature requirement'')
      else Inr \<lparr>owner = sender, paused = False, daoAddress = daoAddress',
                withdrawalLimit = withdrawalLimit', requiredSignatures = requiredSignatures',
                spendingProposalCount = 0,
                authorizedSigners = (\<lambda>_. False)(sender := True),
                spendingProposals = (\<lambda>_. zero_spendingProposal),
                tokenBalances = (\<lambda>_. 0),
                signerList = [sender], supportedTokens = []\<rparr>)"

text \<open>
  The functions without the \<open>nonReentrant\<close> guard come first, because an external call
  made by one of the guarded functions can run them.
\<close>

definition updateWithdrawalLimit :: "vault \<Rightarrow> address \<Rightarrow> nat \<Rightarrow> error + vault" where
  "updateWithdrawalLimit s sender newLimit =
     (if sender \<noteq> owner s then Inl (Revert ''Ownable: caller is not the owner'')
      else Inr (s\<lparr>withdrawalLimit := newLimit\<rparr>))"

definition updateRequiredSignatures :: "vault \<Rightarrow> address \<Rightarrow> nat \<Rightarrow> error + vault" where
  "updateRequiredSignatures s sender newRequiredSignatures =
     (if sender \<noteq> owner s then Inl (Revert ''Ownable: caller is not the owner'')
      else if \<not> newRequiredSignatures \<ge> MIN_SIGNATURES
        then Inl (Revert ''Invalid signature requirement'')
      else if \<not> newRequiredSignatures \<le> length (signerList s)
        then Inl (Revert ''Required signatures exceed signer count'')
      else Inr (s\<lparr>requiredSignatures := newRequiredSignatures\<rparr>))"

definition emergencyPause :: "vault \<Rightarrow> address \<Rightarrow> string \<Rightarrow> error + vault" where
  "emergencyPause s sender reason =
     (if \<not> (authorizedSigners s sender \<or> sender = owner s)
        then Inl (Revert ''Not an authorized signer'')
      else if paused s then Inl (Revert ''Pausable: paused'')
      else Inr (s\<lparr>paused := True\<rparr>))"

text \<open>\<open>receive()\<close>: a plain send of the native asset to the vault. It has no modifier.\<close>

definition receive :: "vault \<Rightarrow> address \<Rightarrow> nat \<Rightarrow> error + vault" where
  "receive s sender msg_value =
     (if msg_value > 0
      then (if tokenBalances s 0 + msg_value > MAX_UINT256 then Inl (Panic ARITHMETIC_PANIC)
            else Inr (s\<lparr>tokenBalances := (tokenBalances s)(0 := tokenBalances s 0 + msg_value)\<rparr>))
      else Inr s)"

definition getBalance :: "vault \<Rightarrow> address \<Rightarrow> nat" where
  "getBalance s token' = tokenBalances s token'"

definition getSigners :: "vault \<Rightarrow> address list" where
  "getSigners s = signerList s"

datatype vault_op =
    DepositETH nat
  | DepositToken address nat
  | Withdraw address nat address
  | CreateSpendingProposal address nat address string
  | ApproveSpendingProposal nat
  | ExecuteSpendingProposal nat
  | AddSigner address
  | RemoveSigner address
  | UpdateWithdrawalLimit nat
  | UpdateRequiredSignatures nat
  | EmergencyPause string
  | UnpauseVault
  | Receive nat
  | TransferOwnershipVault address
  | RenounceOwnershipVault

text \<open>
  What an external call did, as the calling contract sees it: it reverted; it returned a
  boolean (what an ERC-20 \<open>transfer\<close> or \<open>transferFrom\<close> answers); it returned no data
  (a plain receipt of the native asset, or a token that answers nothing); or the called
  address has no code.
\<close>

datatype call_result = Reverted | Returned bool | ReturnedNoData | NoCode

text \<open>
  While the external call runs, the called contract (and whatever it calls) may call back
  into the vault. The guard is set for that time, so every \<open>nonReentrant\<close> function
  reverts; the others run as usual. A send of the native asset to the vault's own
  address, or to a contract that pays back, is such a call of \<open>receive()\<close>.
\<close>

fun reentrant_call :: "vault \<Rightarrow> address \<Rightarrow> vault_op \<Rightarrow> error + vault" where
  "reentrant_call s sender (UpdateWithdrawalLimit l) = updateWithdrawalLimit s sender l"
| "reentrant_call s sender (UpdateRequiredSignatures n) = updateRequiredSignatures s sender n"
| "reentrant_call s sender (EmergencyPause r) = emergencyPause s sender r"
| "reentrant_call s sender UnpauseVault = unpause s sender"
| "reentrant_call s sender (Receive v) = receive s sender v"
| "reentrant_call s sender (TransferOwnershipVault a) = transferOwnership s sender a"
| "reentrant_call s sender RenounceOwnershipVault = renounceOwnership s sender"
| "reentrant_call s sender guarded = Inl (Revert ''ReentrancyGuard: reentrant call'')"

definition callback :: "vault \<Rightarrow> address \<times> vault_op \<Rightarrow> vault" where
  "callback s c = (case reentrant_call s (fst c) (snd c) of Inl e \<Rightarrow> s | Inr s' \<Rightarrow> s')"

text \<open>
  An external call, as the environment decides it: its result, and the calls back into
  the vault made while it ran (sender and function, in order). When the call reverted,
  everything done during it is undone; an address without code runs nothing.
\<close>

record external_call =
  result :: call_result
  callbacks :: "(address \<times> vault_op) list"

definition after_external_call :: "vault \<Rightarrow> external_call \<Rightarrow> vault" where
  "after_external_call s ext =
     (if result ext = Reverted \<or> result ext = NoCode then s
      else foldl callback s (callbacks ext))"

text \<open>An external call during which nothing calls back into the vault.\<close>

definition quiet_call :: "call_result \<Rightarrow> external_call" where
  "quiet_call r = \<lparr>result = r, callbacks = []\<rparr>"

text \<open>
  The success flag of a low-level \<open>call\<close> (a send of the native asset): false only when
  the call reverted.
\<close>

definition call_success :: "call_result \<Rightarrow> bool" where
  "call_success r = (r \<noteq> Reverted)"

text \<open>
  SafeERC20's \<open>safeTransfer\<close> and \<open>safeTransferFrom\<close> (OpenZeppelin 4.x) accept a token
  that returned \<open>true\<close> or returned no data. They revert with the token's own reason
  (here the library's default) when the call reverted, with \<open>ERC20 operation did not
  succeed\<close> when it returned \<open>false\<close>, and with \<open>call to non-contract\<close> when the
  address has no code.
\<close>

definition safeERC20_ok :: "call_result \<Rightarrow> bool" where
  "safeERC20_ok r = (r = Returned True \<or> r = ReturnedNoData)"

definition safeERC20_error :: "call_result \<Rightarrow> error" where
  "safeERC20_error r =
     (if r = Reverted then Revert ''SafeERC20: low-level call failed''
      else if r = NoCode then Revert ''Address: call to non-contract''
      else Revert ''SafeERC20: ERC20 operation did not succeed'')"

text \<open>
  \<open>try IERC20(token).transfer(...) { success = true; } catch { success = false; }\<close>:
  the catch clause takes a call that reverted; a call that returned a boolean takes the
  success clause, whatever the boolean. An address without code, or an answer that is
  not a boolean, makes the \<open>try\<close> statement itself revert with no reason, outside the
  catch clause.
\<close>

definition try_transfer :: "call_result \<Rightarrow> error + bool" where
  "try_transfer r =
     (case r of Reverted \<Rightarrow> Inr False
      | Returned b \<Rightarrow> Inr True
      | ReturnedNoData \<Rightarrow> Inl (Revert [])
      | NoCode \<Rightarrow> Inl (Revert []))"

text \<open>
  The transfer itself failed: the call reverted, or the token reported \<open>false\<close> or has
  no code.
\<close>

definition transfer_failed :: "address \<Rightarrow> call_result \<Rightarrow> bool" where
  "transfer_failed token' r =
     (r = Reverted \<or> (token' \<noteq> 0 \<and> (r = Returned False \<or> r = NoCode)))"

definition depositETH :: "vault \<Rightarrow> address \<Rightarrow> nat \<Rightarrow> error + vault" where
  "depositETH s sender msg_value =
     (if paused s then Inl (Revert ''Pausable: paused'')
      else if \<not> msg_value > 0 then Inl (Revert ''Deposit amount must be greater than 0'')
      else if tokenBalances s 0 + msg_value > MAX_UINT256 then Inl (Panic ARITHMETIC_PANIC)
      else Inr (s\<lparr>tokenBalances := (tokenBalances s)(0 := tokenBalances s 0 + msg_value)\<rparr>))"

definition addSupportedToken :: "vault \<Rightarrow> address \<Rightarrow> vault" where
  "addSupportedToken s token' =
     (if token' \<in> set (supportedTokens s) then s
      else s\<lparr>supportedTokens := supportedTokens s @ [token']\<rparr>)"

definition depositToken :: "vault \<Rightarrow> address \<Rightarrow> address \<Rightarrow> nat \<Rightarrow> external_call \<Rightarrow> error + vault" where
  "depositToken s sender token' amount' ext =
     (if paused s then Inl (Revert ''Pausable: paused'')
      else if \<not> token' \<noteq> 0 then Inl (Revert ''Invalid token address'')
      else if \<not> amount' > 0 then Inl (Revert ''Deposit amount must be greater than 0'')
      else if \<not> safeERC20_ok (result ext) then Inl (safeERC20_error (result ext))
      else let s1 = after_external_call s ext in
        if tokenBalances s1 token' + amount' > MAX_UINT256 then Inl (Panic ARITHMETIC_PANIC)
        else Inr (addSupportedToken
                    (s1\<lparr>tokenBalances := (tokenBalances s1)(token' := tokenBalances s1 token' + amount')\<rparr>)
                    token'))"

definition withdraw :: "vault \<Rightarrow> address \<Rightarrow> address \<Rightarrow> nat \<Rightarrow> address \<Rightarrow> external_call \<Rightarrow> error + vault" where
  "withdraw s sender token' amount' recipient' ext =
     (if \<not> sender = daoAddress s then Inl (Revert ''Only DAO can call this function'')
      else if paused s then Inl (Revert ''Pausable: paused'')
      else if \<not> amount' > 0 then Inl (Revert ''Withdrawal amount must be greater than 0'')
      else if \<not> recipient' \<noteq> 0 then Inl (Revert ''Invalid recipient address'')
      else if \<not> amount' \<le> withdrawalLimit s then Inl (Revert ''Amount exceeds withdrawal limit'')
      else if \<not> tokenBalances s token' \<ge> amount' then Inl (Revert ''Insufficient balance'')
      else let s1 = s\<lparr>tokenBalances := (tokenBalances s)(token' := tokenBalances s token' - amount')\<rparr>
           in if token' = 0
              then (if \<not> call_success (result ext) then Inl (Revert ''ETH transfer failed'')
                    else Inr (after_external_call s1 ext))
              else (if \<not> safeERC20_ok (result ext) then Inl (safeERC20_error (result ext))
                    else Inr (after_external_call s1 ext)))"

definition createSpendingProposal ::
  "vault \<Rightarrow> address \<Rightarrow> nat \<Rightarrow> address \<Rightarrow> nat \<Rightarrow> address \<Rightarrow> string \<Rightarrow> error + (nat \<times> vault)" where
  "createSpendingProposal s sender now token' amount' recipient' description' =
     (if \<not> (authorizedSigners s sender \<or> sender = owner s)
        then Inl (Revert ''Not an authorized signer'')
      else if paused s then Inl (Revert ''Pausable: paused'')
      else if \<not> amount' > withdrawalLimit s
        then Inl (Revert ''Use direct withdrawal for small amounts'')
      else if \<not> recipient' \<noteq> 0 then Inl (Revert ''Invalid recipient address'')
      else if \<not> tokenBalances s token' \<ge> amount' then Inl (Revert ''Insufficient balance'')
      else if \<not> length description' > 0 then Inl (Revert ''Description cannot be empty'')
      else if spendingProposalCount s + 1 > MAX_UINT256 then Inl (Panic ARITHMETIC_PANIC)
      else if now + PROPOSAL_DURATION > MAX_UINT256 then Inl (Panic ARITHMETIC_PANIC)
      else let proposalId = spendingProposalCount s + 1 in
        Inr (proposalId,
             s\<lparr>spendingProposalCount := proposalId,
               spendingProposals := (spendingProposals s)(proposalId :=
                 (spendingProposals s proposalId)
                 \<lparr>sp_id := proposalId, token := token', amount := amount',
                  recipient := recipient', sp_description := description',
                  sp_deadline := now + PROPOSAL_DURATION\<rparr>)\<rparr>))"

text \<open>
  \<open>_executeSpendingProposal\<close>: the flag is set and the balance decremented before the
  external call. The native asset goes out by a low-level call whose success flag is
  read; a token goes out by the \<open>try\<close> statement above, which reads only whether the
  call reverted, not the boolean the token returned. When \<open>success\<close> is false the flag
  and the balance are put back.
\<close>

definition executeSpendingProposal_internal :: "vault \<Rightarrow> nat \<Rightarrow> external_call \<Rightarrow> error + vault" where
  "executeSpendingProposal_internal s proposalId ext =
     (let p = spendingProposals s proposalId in
      if tokenBalances s (token p) < amount p then Inl (Panic ARITHMETIC_PANIC)
      else let s1 = s\<lparr>spendingProposals := (spendingProposals s)(proposalId := p\<lparr>sp_executed := True\<rparr>),
                      tokenBalances := (tokenBalances s)(token p := tokenBalances s (token p) - amount p)\<rparr>
           in case (if token p = 0 then Inr (call_success (result ext))
                    else try_transfer (result ext)) of
                Inl e \<Rightarrow> Inl e
              | Inr success \<Rightarrow>
                 if \<not> success
                 then (if tokenBalances s1 (token p) + amount p > MAX_UINT256
                       then Inl (Panic ARITHMETIC_PANIC)
                       else Inr (s1\<lparr>spendingProposals := (spendingProposals s1)(proposalId :=
                                      (spendingProposals s1 proposalId)\<lparr>sp_executed := False\<rparr>),
                                    tokenBalances := (tokenBalances s1)(token p :=
                                      tokenBalances s1 (token p) + amount p)\<rparr>))
                 else Inr (after_external_call s1 ext))"

definition approveSpendingProposal :: "vault \<Rightarrow> address \<Rightarrow> nat \<Rightarrow> nat \<Rightarrow> external_call \<Rightarrow> error + vault" where
  "approveSpendingProposal s sender now proposalId ext =
     (if \<not> (authorizedSigners s sender \<or> sender = owner s)
        then Inl (Revert ''Not an authorized signer'')
      else if paused s then Inl (Revert ''Pausable: paused'')
      else if \<not> (proposalId > 0 \<and> proposalId \<le> spendingProposalCount s)
        then Inl (Revert ''Invalid proposal ID'')
      else let p = spendingProposals s proposalId in
        if \<not> now < sp_deadline p then Inl (Revert ''Proposal expired'')
        else if \<not> \<not> sp_executed p then Inl (Revert ''Proposal already executed'')
        else if \<not> \<not> hasApproved p sender then Inl (Revert ''Already approved'')
        else if approvals p + 1 > MAX_UINT256 then Inl (Panic ARITHMETIC_PANIC)
        else let p1 = p\<lparr>hasApproved := (hasApproved p)(sender := True), approvals := approvals p + 1\<rparr>;
                 s1 = s\<lparr>spendingProposals := (spendingProposals s)(proposalId := p1)\<rparr>
             in if approvals p1 \<ge> requiredSignatures s1
                then executeSpendingProposal_internal s1 proposalId ext
                else Inr s1)"

definition executeSpendingProposal :: "vault \<Rightarrow> address \<Rightarrow> nat \<Rightarrow> external_call \<Rightarrow> error + vault" where
  "executeSpendingProposal s sender proposalId ext =
     (if paused s then Inl (Revert ''Pausable: paused'')
      else if \<not> (proposalId > 0 \<and> proposalId \<le> spendingProposalCount s)
        then Inl (Revert ''Invalid proposal ID'')
      else let p = spendingProposals s proposalId in
        if \<not> approvals p \<ge> requiredSignatures s then Inl (Revert ''Not enough approvals'')
        else if \<not> \<not> sp_executed p then Inl (Revert ''Proposal already executed'')
        else if \<not> tokenBalances s (token p) \<ge> amount p then Inl (Revert ''Insufficient balance'')
        else executeSpendingProposal_internal s proposalId ext)"

definition addSigner :: "vault \<Rightarrow> address \<Rightarrow> address \<Rightarrow> error + vault" where
  "addSigner s sender signer =
     (if sender \<noteq> owner s then Inl (Revert ''Ownable: caller is not the owner'')
      else if paused s then Inl (Revert ''Pausable: paused'')
      else if \<not> signer \<noteq> 0 then Inl (Revert ''Invalid signer address'')
      else if \<not> \<not> authorizedSigners s signer then Inl (Revert ''Already a signer'')
      else if \<not> length (signerList s) < MAX_SIGNERS then Inl (Revert ''Max signers reached'')
      else Inr (s\<lparr>authorizedSigners := (authorizedSigners s)(signer := True),
                  signerList := signerList s @ [signer]\<rparr>))"

definition removeSigner :: "vault \<Rightarrow> address \<Rightarrow> address \<Rightarrow> error + vault" where
  "removeSigner s sender signer =
     (if sender \<noteq> owner s then Inl (Revert ''Ownable: caller is not the owner'')
      else if paused s then Inl (Revert ''Pausable: paused'')
      else if \<not> signer \<noteq> 0 then Inl (Revert ''Invalid signer address'')
      else if \<not> authorizedSigners s signer then Inl (Revert ''Not a signer'')
      else if \<not> length (signerList s) > requiredSignatures s
        then Inl (Revert ''Cannot remove signer below required threshold'')
      else Inr (s\<lparr>authorizedSigners := (authorizedSigners s)(signer := False),
                  signerList := swapRemove signer (signerList s)\<rparr>))"

text \<open>
  One external call on a vault by \<open>sender\<close> at block time \<open>now\<close>; \<open>ext\<close> is the
  external call the function makes, if it makes one.
\<close>

fun vault_call :: "vault \<Rightarrow> address \<Rightarrow> nat \<Rightarrow> external_call \<Rightarrow> vault_op \<Rightarrow> error + vault" where
  "vault_call s sender now ext (DepositETH v) = depositETH s sender v"
| "vault_call s sender now ext (DepositToken t a) = depositToken s sender t a ext"
| "vault_call s sender now ext (Withdraw t a r) = withdraw s sender t a r ext"
| "vault_call s sender now ext (CreateSpendingProposal t a r d) =
     map_sum (\<lambda>e. e) snd (createSpendingProposal s sender now t a r d)"
| "vault_call s sender now ext (ApproveSpendingProposal i) = approveSpendingProposal s sender now i ext"
| "vault_call s sender now ext (ExecuteSpendingProposal i) = executeSpendingProposal s sender i ext"
| "vault_call s sender now ext (AddSigner a) = addSigner s sender a"
| "vault_call s sender now ext (RemoveSigner a) = removeSigner s sender a"
| "vault_call s sender now ext (UpdateWithdrawalLimit l) = updateWithdrawalLimit s sender l"
| "vault_call s sender now ext (UpdateRequiredSignatures n) = updateRequiredSignatures s sender n"
| "vault_call s sender now ext (EmergencyPause r) = emergencyPause s sender r"
| "vault_call s sender now ext UnpauseVault = unpause s sender"
| "vault_call s sender now ext (Receive v) = receive s sender v"
| "vault_call s sender now ext (TransferOwnershipVault a) = transferOwnership s sender a"
| "vault_call s sender now ext RenounceOwnershipVault = renounceOwnership s sender"

text \<open>The states a deployed vault can be in: the constructor's, then any calls that return.\<close>

inductive vault_reachable :: "vault \<Rightarrow> bool" where
  vault_init: "Vault_constructor deployer daoAddress' withdrawalLimit' requiredSignatures' = Inr s
     \<Longrightarrow> vault_reachable s"
| vault_step: "vault_reachable s \<Longrightarrow> vault_call s sender now ext op = Inr s' \<Longrightarrow> vault_reachable s'"

section \<open>VaultFactory.sol\<close>

record vaultFactory = ownable +
  daoVaults :: "address \<Rightarrow> address list"
  vaultToDAO_vf :: "address \<Rightarrow> address"
  allVaults :: "address list"
  vaultCount :: nat
  defaultWithdrawalLimit :: nat
  defaultRequiredSignatures :: nat

definition MAX_VAULTS_PER_DAO :: nat where
  "MAX_VAULTS_PER_DAO = 5"

definition MIN_WITHDRAWAL_LIMIT :: nat where
  "MIN_WITHDRAWAL_LIMIT = 10 ^ 16"

definition MAX_WITHDRAWAL_LIMIT :: nat where
  "MAX_WITHDRAWAL_LIMIT = 1000 * 10 ^ 18"

definition MIN_REQUIRED_SIGNATURES :: nat where
  "MIN_REQUIRED_SIGNATURES = 1"

definition MAX_REQUIRED_SIGNATURES :: nat where
  "MAX_REQUIRED_SIGNATURES = 20"

definition VaultFactory_constructor :: "address \<Rightarrow> nat \<Rightarrow> nat \<Rightarrow> error + vaultFactory" where
  "VaultFactory_constructor sender defaultWithdrawalLimit' defaultRequiredSignatures' =
     (if \<not> (defaultWithdrawalLimit' \<ge> MIN_WITHDRAWAL_LIMIT \<and>
             defaultWithdrawalLimit' \<le> MAX_WITHDRAWAL_LIMIT)
        then Inl (Revert ''Invalid default withdrawal limit'')
      else if \<not> (defaultRequiredSignatures' \<ge> MIN_REQUIRED_SIGNATURES \<and>
                  defaultRequiredSignatures' \<le> MAX_REQUIRED_SIGNATURES)
        then Inl (Revert ''Invalid default required signatures'')
      else Inr \<lparr>owner = sender, daoVaults = (\<lambda>_. []), vaultToDAO_vf = (\<lambda>_. 0),
                allVaults = [], vaultCount = 0,
                defaultWithdrawalLimit = defaultWithdrawalLimit',
                defaultRequiredSignatures = defaultRequiredSignatures'\<rparr>)"

text \<open>
  \<open>_createVault\<close>. \<open>self\<close> is the factory's own address: \<open>new Vault(...)\<close> runs the
  vault's constructor with the factory as \<open>msg.sender\<close>, and the factory then calls
  \<open>transferOwnership\<close> on the new vault. \<open>vaultAddress\<close> is the address the deployment
  gives the new contract. The result is that address, the new vault's state and the
  factory's new state.
\<close>

definition createVault_internal ::
  "vaultFactory \<Rightarrow> address \<Rightarrow> address \<Rightarrow> address \<Rightarrow> address \<Rightarrow> nat \<Rightarrow> nat
     \<Rightarrow> error + (address \<times> vault \<times> vaultFactory)" where
  "createVault_internal f self sender vaultAddress daoAddress' withdrawalLimit' requiredSignatures' =
     (if \<not> daoAddress' \<noteq> 0 then Inl (Revert ''Invalid DAO address'')
      else if \<not> (withdrawalLimit' \<ge> MIN_WITHDRAWAL_LIMIT \<and> withdrawalLimit' \<le> MAX_WITHDRAWAL_LIMIT)
        then Inl (Revert ''Invalid withdrawal limit'')
      else if \<not> (requiredSignatures' \<ge> MIN_REQUIRED_SIGNATURES \<and>
                  requiredSignatures' \<le> MAX_REQUIRED_SIGNATURES)
        then Inl (Revert ''Invalid required signatures'')
      else if \<not> length (daoVaults f daoAddress') < MAX_VAULTS_PER_DAO
        then Inl (Revert ''Max vaults per DAO exceeded'')
      else (case Vault_constructor self daoAddress' withdrawalLimit' requiredSignatures' of
              Inl e \<Rightarrow> Inl e
            | Inr newVault \<Rightarrow>
               (case transferOwnership newVault self sender of
                  Inl e \<Rightarrow> Inl e
                | Inr newVault' \<Rightarrow>
                   if vaultCount f + 1 > MAX_UINT256 then Inl (Panic ARITHMETIC_PANIC)
                   else Inr (vaultAddress, newVault',
                             f\<lparr>daoVaults := (daoVaults f)(daoAddress' :=
                                  daoVaults f daoAddress' @ [vaultAddress]),
                               vaultToDAO_vf := (vaultToDAO_vf f)(vaultAddress := daoAddress'),
                               allVaults := allVaults f @ [vaultAddress],
                               vaultCount := vaultCount f + 1\<rparr>))))"

definition createVault ::
  "vaultFactory \<Rightarrow> address \<Rightarrow> address \<Rightarrow> address \<Rightarrow> address \<Rightarrow> nat
     \<Rightarrow> error + (address \<times> vault \<times> vaultFactory)" where
  "createVault f self sender vaultAddress daoAddress' withdrawalLimit' =
     createVault_internal f self sender vaultAddress daoAddress' withdrawalLimit'
       (defaultRequiredSignatures f)"

definition createVaultWithCustomParams ::
  "vaultFactory \<Rightarrow> address \<Rightarrow> address \<Rightarrow> address \<Rightarrow> address \<Rightarrow> nat \<Rightarrow> nat
     \<Rightarrow> error + (address \<times> vault \<times> vaultFactory)" where
  "createVaultWithCustomParams f self sender vaultAddress daoAddress' withdrawalLimit' requiredSignatures' =
     createVault_internal f self sender vaultAddress daoAddress' withdrawalLimit' requiredSignatures'"

definition createDefaultVault ::
  "vaultFactory \<Rightarrow> address \<Rightarrow> address \<Rightarrow> address \<Rightarrow> address
     \<Rightarrow> error + (address \<times> vault \<times> vaultFactory)" where
  "createDefaultVault f self sender vaultAddress daoAddress' =
     createVault_internal f self sender vaultAddress daoAddress'
       (defaultWithdrawalLimit f) (defaultRequiredSignatures f)"

section \<open>DAOFactory.sol\<close>

record daoFactory = pausable +
  userDAOs :: "address \<Rightarrow> address list"
  daoToVault :: "address \<Rightarrow> address"
  vaultToDAO :: "address \<Rightarrow> address"
  allDAOs :: "address list"
  daoCount :: nat

definition MAX_DAOS_PER_USER :: nat where
  "MAX_DAOS_PER_USER = 10"

text \<open>The contract declares no constructor: the deployer owns it and every variable is zero.\<close>

definition DAOFactory_constructor :: "address \<Rightarrow> daoFactory" where
  "DAOFactory_constructor sender =
     \<lparr>owner = sender, paused = False, userDAOs = (\<lambda>_. []), daoToVault = (\<lambda>_. 0),
      vaultToDAO = (\<lambda>_. 0), allDAOs = [], daoCount = 0\<rparr>"

text \<open>
  \<open>createDAO\<close>: \<open>newAddress\<close> is the address the deployment gives the new DAO. The result
  is that address, the new DAO's state and the factory's new state.
\<close>

definition createDAO ::
  "daoFactory \<Rightarrow> address \<Rightarrow> address \<Rightarrow> string \<Rightarrow> error + (address \<times> dao \<times> daoFactory)" where
  "createDAO f sender newAddress name' =
     (if paused f then Inl (Revert ''Pausable: paused'')
      else if \<not> length name' > 0 then Inl (Revert ''DAO name cannot be empty'')
      else if \<not> length name' \<le> 100 then Inl (Revert ''DAO name too long'')
      else if \<not> length (userDAOs f sender) < MAX_DAOS_PER_USER
        then Inl (Revert ''Max DAOs per user exceeded'')
      else (case DAO_constructor name' sender of
              Inl e \<Rightarrow> Inl e
            | Inr newDAO \<Rightarrow>
               if daoCount f + 1 > MAX_UINT256 then Inl (Panic ARITHMETIC_PANIC)
               else Inr (newAddress, newDAO,
                         f\<lparr>userDAOs := (userDAOs f)(sender := userDAOs f sender @ [newAddress]),
                           allDAOs := allDAOs f @ [newAddress],
                           daoCount := daoCount f + 1\<rparr>)))"

text \<open>
  \<open>registerVault\<close> and \<open>unregisterVault\<close> ask the DAO contract for its owner;
  \<open>daoOwner\<close> is what that call returned (\<open>None\<close> when it reverted).
\<close>

definition registerVault ::
  "daoFactory \<Rightarrow> address \<Rightarrow> address option \<Rightarrow> address \<Rightarrow> address \<Rightarrow> error + daoFactory" where
  "registerVault f sender daoOwner daoAddress' vaultAddress =
     (if paused f then Inl (Revert ''Pausable: paused'')
      else if \<not> daoAddress' \<noteq> 0 then Inl (Revert ''Invalid DAO address'')
      else if \<not> vaultAddress \<noteq> 0 then Inl (Revert ''Invalid vault address'')
      else if \<not> daoToVault f daoAddress' = 0 then Inl (Revert ''DAO already has a vault'')
      else if \<not> vaultToDAO f vaultAddress = 0 then Inl (Revert ''Vault already registered'')
      else (case daoOwner of
              None \<Rightarrow> Inl (Revert [])
            | Some o' \<Rightarrow>
               if \<not> o' = sender then Inl (Revert ''Only DAO owner can register vault'')
               else Inr (f\<lparr>daoToVault := (daoToVault f)(daoAddress' := vaultAddress),
                           vaultToDAO := (vaultToDAO f)(vaultAddress := daoAddress')\<rparr>)))"

definition unregisterVault ::
  "daoFactory \<Rightarrow> address \<Rightarrow> address option \<Rightarrow> address \<Rightarrow> error + daoFactory" where
  "unregisterVault f sender daoOwner daoAddress' =
     (if paused f then Inl (Revert ''Pausable: paused'')
      else if \<not> daoAddress' \<noteq> 0 then Inl (Revert ''Invalid DAO address'')
      else if \<not> daoToVault f daoAddress' \<noteq> 0 then Inl (Revert ''No vault registered for this DAO'')
      else (case daoOwner of
              None \<Rightarrow> Inl (Revert [])
            | Some o' \<Rightarrow>
               if \<not> o' = sender then Inl (Revert ''Only DAO owner can unregister vault'')
               else let vaultAddress = daoToVault f daoAddress' in
                 Inr (f\<lparr>daoToVault := (daoToVault f)(daoAddress' := 0),
                       vaultToDAO := (vaultToDAO f)(vaultAddress := 0)\<rparr>)))"

definition getUserDAOs :: "daoFactory \<Rightarrow> address \<Rightarrow> address list" where
  "getUserDAOs f user = userDAOs f user"

definition emergencyRemoveDAO :: "daoFactory \<Rightarrow> address \<Rightarrow> address \<Rightarrow> error + daoFactory" where
  "emergencyRemoveDAO f sender daoAddress' =
     (if sender \<noteq> owner f then Inl (Revert ''Ownable: caller is not the owner'')
      else if \<not> daoAddress' \<noteq> 0 then Inl (Revert ''Invalid DAO address'')
      else let f1 = f\<lparr>allDAOs := swapRemove daoAddress' (allDAOs f)\<rparr>;
               vaultAddress = daoToVault f1 daoAddress';
               f2 = (if vaultAddress \<noteq> 0
                     then f1\<lparr>daoToVault := (daoToVault f1)(daoAddress' := 0),
                            vaultToDAO := (vaultToDAO f1)(vaultAddress := 0)\<rparr>
                     else f1)
           in if daoCount f2 = 0 then Inl (Panic ARITHMETIC_PANIC)
              else Inr (f2\<lparr>daoCount := daoCount f2 - 1\<rparr>))"

section \<open>Invariants and example states\<close>

text \<open>
  The signer list and the \<open>authorizedSigners\<close> mapping describe one set.
\<close>

definition signers_consistent :: "vault \<Rightarrow> bool" where
  "signers_consistent s =
     (distinct (signerList s) \<and> (\<forall>a. authorizedSigners s a = (a \<in> set (signerList s))))"

text \<open>
  The vault that the factory at address 100 deploys for DAO 20 with a limit of one unit
  of the native asset: the factory is its only signer. The deployer owns it first; the
  factory then hands it to the caller (address 10).
\<close>

definition fresh_vault :: "address \<Rightarrow> nat \<Rightarrow> vault" where
  "fresh_vault owner' requiredSignatures' = \<lparr>owner = owner', paused = False, daoAddress = 20,
     withdrawalLimit = 1000000000000000000, requiredSignatures = requiredSignatures',
     spendingProposalCount = 0,
     authorizedSigners = (\<lambda>_. False)(100 := True),
     spendingProposals = (\<lambda>_. zero_spendingProposal),
     tokenBalances = (\<lambda>_. 0),
     signerList = [100], supportedTokens = []\<rparr>"

text \<open>That vault, owned by 10 and requiring one signature, after the owner added signer 11.\<close>

definition two_signer_vault :: vault where
  "two_signer_vault = (fresh_vault 10 1)\<lparr>authorizedSigners := (\<lambda>_. False)(100 := True, 11 := True),
     signerList := [100, 11]\<rparr>"

text \<open>
  A VaultFactory deployed by address 1 with the defaults of the repository's deployment
  module (limit 1 unit, 1 signature), before and after it created its first vault.
\<close>

definition example_vaultFactory :: vaultFactory where
  "example_vaultFactory = \<lparr>owner = 1, daoVaults = (\<lambda>_. []), vaultToDAO_vf = (\<lambda>_. 0),
     allVaults = [], vaultCount = 0, defaultWithdrawalLimit = 1000000000000000000,
     defaultRequiredSignatures = 1\<rparr>"

definition example_vaultFactory_after :: vaultFactory where
  "example_vaultFactory_after = example_vaultFactory\<lparr>daoVaults := (\<lambda>_. [])(20 := [200]),
     vaultToDAO_vf := (\<lambda>_. 0)(200 := 20), allVaults := [200], vaultCount := 1\<rparr>"

text \<open>The vault of owner 10 after an \<open>emergencyPause\<close>.\<close>

definition paused_vault :: vault where
  "paused_vault = (fresh_vault 10 1)\<lparr>paused := True\<rparr>"

text \<open>
  A vault with two signers (11 and 12), two required signatures and one spending proposal
  of 50 units to recipient 30, in the given token, with the given approvals, executed
  flag and balance.
\<close>

definition both_signers :: "address \<Rightarrow> bool" where
  "both_signers a = (a = 11 \<or> a = 12)"

definition proposal_vault :: "address \<Rightarrow> nat \<Rightarrow> (address \<Rightarrow> bool) \<Rightarrow> bool \<Rightarrow> nat \<Rightarrow> vault" where
  "proposal_vault token' approvals' approved done balance =
     \<lparr>owner = 11, paused = False, daoAddress = 20, withdrawalLimit = 10,
      requiredSignatures = 2, spendingProposalCount = 1,
      authorizedSigners = both_signers,
      spendingProposals = (\<lambda>_. zero_spendingProposal)(1 :=
        \<lparr>sp_id = 1, token = token', amount = 50, recipient = 30, sp_description = ''desc'',
         approvals = approvals', sp_deadline = 605800, sp_executed = done,
         hasApproved = approved\<rparr>),
      tokenBalances = (\<lambda>_. 0)(token' := balance),
      signerList = [11, 12], supportedTokens = (if token' = 0 then [] else [token'])\<rparr>"






text \<open>
  A send of 50 units to recipient 30, a contract that sends the 50 units back to the
  vault while it receives them.
\<close>

definition pay_back :: external_call where
  "pay_back = \<lparr>result = ReturnedNoData, callbacks = [(30, Receive 50)]\<rparr>"

text \<open>
  A DAOFactory in which user 10 has created ten DAOs, the fifth with a registered vault.
\<close>

definition full_daoFactory :: daoFactory where
  "full_daoFactory =
     \<lparr>owner = 1, paused = False,
      userDAOs = (\<lambda>_. [])(10 := [201, 202, 203, 204, 205, 206, 207, 208, 209, 210]),
      daoToVault = (\<lambda>_. 0)(205 := 305),
      vaultToDAO = (\<lambda>_. 0)(305 := 205),
      allDAOs = [201, 202, 203, 204, 205, 206, 207, 208, 209, 210],
      daoCount = 10\<rparr>"


text \<open>
  The bounds that keep \<open>executeProposal\<close>'s checked arithmetic from overflowing: the
  member cap, the quorum range, and one vote per address (the votes of a proposal are
  as many as the addresses marked in \<open>hasVoted\<close>).
\<close>

definition votes_counted :: "dao \<Rightarrow> bool" where
  "votes_counted s =
     (memberCount s \<le> 1000 \<and> quorumPercentage s \<le> 100
      \<and> (\<forall>i. yesVotes (proposals s i) + noVotes (proposals s i)
             = card {a. hasVoted (proposals s i) a}))"

text \<open>
  The spec's scenario A: the DAO "Test DAO" of owner 10 as constructed; a list of
  membership transactions on it; and its state after the owner proposed at time 1000 with
  duration 3600 and voted yes, unpaused or paused.
\<close>

definition example_dao :: dao where
  "example_dao = \<lparr>owner = 10, paused = False, name = ''Test DAO'',
     members = (\<lambda>_. False)(10 := True), proposals = (\<lambda>_. zero_proposal),
     memberList = [10], proposalCount = 0, memberCount = 1,
     attachedVault = 0, quorumPercentage = 51\<rparr>"


text \<open>
  The same DAO after its owner transferred the ownership to address 11, and after the
  new owner then removed the founder.
\<close>

definition transferred_dao :: dao where
  "transferred_dao = example_dao\<lparr>owner := 11\<rparr>"

definition emptied_dao :: dao where
  "emptied_dao = example_dao\<lparr>owner := 11, members := (\<lambda>_. False), memberList := [],
     memberCount := 0\<rparr>"

definition scenarioA_dao :: "bool \<Rightarrow> dao" where
  "scenarioA_dao paused' = example_dao\<lparr>paused := paused',
     proposals := (\<lambda>_. zero_proposal)(1 :=
       \<lparr>proposal_id = 1, title = ''T'', description = ''D'', yesVotes = 1, noVotes = 0,
        deadline = 4600, executed = False, proposer = 10,
        hasVoted = (\<lambda>_. False)(10 := True)\<rparr>),
     proposalCount := 1\<rparr>"

section \<open>The removal loop\<close>

lemma swapRemoveFrom_absent:
  "x \<notin> set (drop i xs) \<Longrightarrow> swapRemoveFrom i x xs = xs"
proof (induction i x xs rule: swapRemoveFrom.induct)
  case (1 i x xs)
  show ?case
  proof (cases "i < length xs")
    case True
    from True have d: "drop i xs = xs ! i # drop (Suc i) xs"
      by (simp add: Cons_nth_drop_Suc)
    with "1.prems" have ne: "xs ! i \<noteq> x" and nin: "x \<notin> set (drop (Suc i) xs)" by auto
    from "1.IH" [OF True ne nin] True ne show ?thesis
      by (subst swapRemoveFrom.simps) simp
  next
    case False
    then show ?thesis by (subst swapRemoveFrom.simps) simp
  qed
qed

lemma butlast_update_last_set:
  assumes "distinct xs" "i < length xs"
  shows "set (butlast (xs[i := xs ! (length xs - 1)])) = set xs - {xs ! i}"
    and "distinct (butlast (xs[i := xs ! (length xs - 1)]))"
proof -
  from assms(2) have ne: "xs \<noteq> []" by auto
  then obtain ys l where xs: "xs = ys @ [l]" by (metis rev_exhaust)
  have l: "xs ! (length xs - 1) = l" by (simp add: xs)
  from assms(1) xs have dys: "distinct ys" and lnin: "l \<notin> set ys" by auto
  show "set (butlast (xs[i := xs ! (length xs - 1)])) = set xs - {xs ! i}"
  proof (cases "i < length ys")
    case True
    have "butlast (xs[i := l]) = ys[i := l]" using True by (simp add: xs list_update_append)
    moreover have "set (ys[i := l]) = insert l (set ys - {ys ! i})"
      using dys True by (rule set_update_distinct)
    moreover have "xs ! i = ys ! i" using True by (simp add: xs nth_append)
    moreover have "ys ! i \<noteq> l" using True lnin by (metis nth_mem)
    ultimately show ?thesis using l lnin by (auto simp: xs)
  next
    case False
    with assms(2) have i: "i = length ys" by (simp add: xs)
    then show ?thesis using lnin by (simp add: xs)
  qed
  show "distinct (butlast (xs[i := xs ! (length xs - 1)]))"
  proof (cases "i < length ys")
    case True
    have "butlast (xs[i := l]) = ys[i := l]" using True by (simp add: xs list_update_append)
    moreover have "distinct (ys[i := l])"
      using dys lnin by (simp add: distinct_list_update)
    ultimately show ?thesis using l by simp
  next
    case False
    with assms(2) have i: "i = length ys" by (simp add: xs)
    then show ?thesis using dys by (simp add: xs)
  qed
qed

lemma swapRemoveFrom_present:
  "distinct xs \<Longrightarrow> x \<in> set (drop i xs) \<Longrightarrow>
     set (swapRemoveFrom i x xs) = set xs - {x} \<and> distinct (swapRemoveFrom i x xs)
     \<and> length (swapRemoveFrom i x xs) = length xs - 1"
proof (induction i x xs rule: swapRemoveFrom.induct)
  case (1 i x xs)
  from "1.prems"(2) have lt: "i < length xs" by (cases "i < length xs") auto
  show ?case
  proof (cases "xs ! i = x")
    case True
    have "swapRemoveFrom i x xs = butlast (xs[i := xs ! (length xs - 1)])"
      using lt True by (subst swapRemoveFrom.simps) simp
    then show ?thesis
      using butlast_update_last_set [OF "1.prems"(1) lt] True by simp
  next
    case False
    from lt have d: "drop i xs = xs ! i # drop (Suc i) xs"
      by (simp add: Cons_nth_drop_Suc)
    with "1.prems"(2) False have "x \<in> set (drop (Suc i) xs)" by auto
    from "1.IH" [OF lt False "1.prems"(1) this] lt False show ?thesis
      by (subst (1 2 3) swapRemoveFrom.simps) simp
  qed
qed

lemma swapRemoveFrom_length:
  "length xs - 1 \<le> length (swapRemoveFrom i x xs) \<and> length (swapRemoveFrom i x xs) \<le> length xs"
proof (induction i x xs rule: swapRemoveFrom.induct)
  case (1 i x xs)
  show ?case
  proof (cases "i < length xs")
    case True
    show ?thesis
    proof (cases "xs ! i = x")
      case eq: True
      have "swapRemoveFrom i x xs = butlast (xs[i := xs ! (length xs - 1)])"
        using True eq by (subst swapRemoveFrom.simps) simp
      then show ?thesis by simp
    next
      case False
      have "swapRemoveFrom i x xs = swapRemoveFrom (Suc i) x xs"
        using True False by (subst swapRemoveFrom.simps) simp
      with "1.IH" [OF True False] show ?thesis by simp
    qed
  next
    case False
    then show ?thesis by (subst (1 2) swapRemoveFrom.simps) simp
  qed
qed

lemma swapRemove_present:
  "distinct xs \<Longrightarrow> x \<in> set xs \<Longrightarrow>
     set (swapRemove x xs) = set xs - {x} \<and> distinct (swapRemove x xs)
     \<and> length (swapRemove x xs) = length xs - 1"
  using swapRemoveFrom_present [of xs x 0] by (simp add: swapRemove_def)

lemma swapRemove_length:
  "length xs - 1 \<le> length (swapRemove x xs) \<and> length (swapRemove x xs) \<le> length xs"
  using swapRemoveFrom_length [of xs 0 x] by (simp add: swapRemove_def)

lemma swapRemove_absent: "x \<notin> set xs \<Longrightarrow> swapRemove x xs = xs"
  using swapRemoveFrom_absent [of x 0 xs] by (simp add: swapRemove_def)

section \<open>Vault: calls back during an external call\<close>

lemmas unguarded_defs = updateWithdrawalLimit_def updateRequiredSignatures_def emergencyPause_def
  receive_def unpause_def transferOwnership_def renounceOwnership_def

lemma reentrant_call_frame:
  assumes "reentrant_call s sender op = Inr s'"
  shows "signerList s' = signerList s" and "authorizedSigners s' = authorizedSigners s"
    and "spendingProposals s' = spendingProposals s"
    and "spendingProposalCount s' = spendingProposalCount s"
    and "supportedTokens s' = supportedTokens s" and "daoAddress s' = daoAddress s"
    and "tokenBalances s t \<le> tokenBalances s' t"
    and "t \<noteq> 0 \<Longrightarrow> tokenBalances s' t = tokenBalances s t"
    and "1 \<le> requiredSignatures s \<Longrightarrow> 1 \<le> requiredSignatures s'"
    and "requiredSignatures s \<le> length (signerList s) \<Longrightarrow>
           requiredSignatures s' \<le> length (signerList s')"
  using assms
  by (cases op; auto simp: unguarded_defs MIN_SIGNATURES_def split: if_splits)+

lemma callback_frame:
  shows "signerList (callback s c) = signerList s"
    and "authorizedSigners (callback s c) = authorizedSigners s"
    and "spendingProposals (callback s c) = spendingProposals s"
    and "spendingProposalCount (callback s c) = spendingProposalCount s"
    and "supportedTokens (callback s c) = supportedTokens s"
    and "daoAddress (callback s c) = daoAddress s"
    and "tokenBalances s t \<le> tokenBalances (callback s c) t"
    and "t \<noteq> 0 \<Longrightarrow> tokenBalances (callback s c) t = tokenBalances s t"
    and "1 \<le> requiredSignatures s \<Longrightarrow> 1 \<le> requiredSignatures (callback s c)"
    and "requiredSignatures s \<le> length (signerList s) \<Longrightarrow>
           requiredSignatures (callback s c) \<le> length (signerList (callback s c))"
  using reentrant_call_frame [of s "fst c" "snd c"]
  by (auto simp: callback_def split: sum.splits)

lemma callbacks_frame:
  shows "signerList (foldl callback s cs) = signerList s"
    and "authorizedSigners (foldl callback s cs) = authorizedSigners s"
    and "spendingProposals (foldl callback s cs) = spendingProposals s"
    and "spendingProposalCount (foldl callback s cs) = spendingProposalCount s"
    and "supportedTokens (foldl callback s cs) = supportedTokens s"
    and "daoAddress (foldl callback s cs) = daoAddress s"
    and "tokenBalances s t \<le> tokenBalances (foldl callback s cs) t"
    and "t \<noteq> 0 \<Longrightarrow> tokenBalances (foldl callback s cs) t = tokenBalances s t"
    and "1 \<le> requiredSignatures s \<Longrightarrow> 1 \<le> requiredSignatures (foldl callback s cs)"
    and "requiredSignatures s \<le> length (signerList s) \<Longrightarrow>
           requiredSignatures (foldl callback s cs) \<le> length (signerList (foldl callback s cs))"
proof (induction cs arbitrary: s)
  case Nil
  {
    case 1 show ?case by simp
  next
    case 2 show ?case by simp
  next
    case 3 show ?case by simp
  next
    case 4 show ?case by simp
  next
    case 5 show ?case by simp
  next
    case 6 show ?case by simp
  next
    case 7 show ?case by simp
  next
    case 8 show ?case by simp
  next
    case 9 then show ?case by simp
  next
    case 10 then show ?case by simp
  }
next
  case (Cons c cs)
  {
    case 1 show ?case by (simp add: Cons.IH(1) callback_frame(1))
  next
    case 2 show ?case by (simp add: Cons.IH(2) callback_frame(2))
  next
    case 3 show ?case by (simp add: Cons.IH(3) callback_frame(3))
  next
    case 4 show ?case by (simp add: Cons.IH(4) callback_frame(4))
  next
    case 5 show ?case by (simp add: Cons.IH(5) callback_frame(5))
  next
    case 6 show ?case by (simp add: Cons.IH(6) callback_frame(6))
  next
    case 7
    from callback_frame(7) [of s t c] Cons.IH(7) [of "callback s c"] show ?case by simp
  next
    case 8
    from callback_frame(8) [OF 8, of s c] Cons.IH(8) [OF 8, of "callback s c"] show ?case by simp
  next
    case 9
    from Cons.IH(9) [OF callback_frame(9) [OF 9, of c]] show ?case by simp
  next
    case 10
    from Cons.IH(10) [OF callback_frame(10) [OF 10, of c]] show ?case by simp
  }
qed

lemma after_external_call_frame [simp]:
  shows "signerList (after_external_call s ext) = signerList s"
    and "authorizedSigners (after_external_call s ext) = authorizedSigners s"
    and "spendingProposals (after_external_call s ext) = spendingProposals s"
    and "spendingProposalCount (after_external_call s ext) = spendingProposalCount s"
    and "supportedTokens (after_external_call s ext) = supportedTokens s"
    and "daoAddress (after_external_call s ext) = daoAddress s"
    and "t \<noteq> 0 \<Longrightarrow> tokenBalances (after_external_call s ext) t = tokenBalances s t"
  by (simp_all add: after_external_call_def callbacks_frame)


lemma after_external_call_requiredSignatures:
  shows "Suc 0 \<le> requiredSignatures s \<Longrightarrow> Suc 0 \<le> requiredSignatures (after_external_call s ext)"
    and "requiredSignatures s \<le> n \<Longrightarrow> n = length (signerList s) \<Longrightarrow>
           requiredSignatures (after_external_call s ext) \<le> n"
  using callbacks_frame(9,10) [of s "callbacks ext"]
  by (simp_all add: after_external_call_def callbacks_frame(1))

lemma after_quiet_call [simp]: "after_external_call s (quiet_call r) = s"
  by (simp add: after_external_call_def quiet_call_def)

lemma result_quiet_call [simp]: "result (quiet_call r) = r"
  by (simp add: quiet_call_def)

section \<open>Vault: signers and the signature requirement\<close>

lemmas vault_defs = safeERC20_error_def try_transfer_def depositETH_def depositToken_def
  addSupportedToken_def withdraw_def
  createSpendingProposal_def executeSpendingProposal_internal_def approveSpendingProposal_def
  executeSpendingProposal_def addSigner_def removeSigner_def updateWithdrawalLimit_def
  updateRequiredSignatures_def emergencyPause_def receive_def unpause_def
  transferOwnership_def renounceOwnership_def

lemma vault_call_signers_frame:
  "vault_call s sender now ext op = Inr s' \<Longrightarrow>
     (\<forall>a. op \<noteq> AddSigner a) \<Longrightarrow> (\<forall>a. op \<noteq> RemoveSigner a) \<Longrightarrow>
     signerList s' = signerList s \<and> authorizedSigners s' = authorizedSigners s"
  by (cases op) (auto simp: vault_defs Let_def split: if_splits sum.splits call_result.splits)

lemma addSigner_consistent:
  assumes "signers_consistent s" "addSigner s sender a = Inr s'"
  shows "signers_consistent s'"
proof -
  from assms(2) have nauth: "\<not> authorizedSigners s a"
    and s': "s' = s\<lparr>authorizedSigners := (authorizedSigners s)(a := True),
                    signerList := signerList s @ [a]\<rparr>"
    by (auto simp: addSigner_def split: if_splits)
  from assms(1) nauth have "a \<notin> set (signerList s)"
    by (simp add: signers_consistent_def)
  with assms(1) show ?thesis
    by (simp add: s' signers_consistent_def)
qed

lemma removeSigner_consistent:
  assumes "signers_consistent s" "removeSigner s sender a = Inr s'"
  shows "signers_consistent s'" and "length (signerList s') = length (signerList s) - 1"
proof -
  from assms(2) have auth: "authorizedSigners s a"
    and s': "s' = s\<lparr>authorizedSigners := (authorizedSigners s)(a := False),
                    signerList := swapRemove a (signerList s)\<rparr>"
    by (auto simp: removeSigner_def split: if_splits)
  from assms(1) auth have d: "distinct (signerList s)" and m: "a \<in> set (signerList s)"
    by (auto simp: signers_consistent_def)
  note r = swapRemove_present [OF d m]
  from r assms(1) show "signers_consistent s'"
    by (auto simp: s' signers_consistent_def)
  from r show "length (signerList s') = length (signerList s) - 1"
    by (simp add: s')
qed

lemma vault_call_consistent:
  assumes "signers_consistent s" "vault_call s sender now ext op = Inr s'"
  shows "signers_consistent s'"
proof (cases "(\<exists>a. op = AddSigner a) \<or> (\<exists>a. op = RemoveSigner a)")
  case True
  with assms show ?thesis
    by (auto dest: addSigner_consistent removeSigner_consistent(1))
next
  case False
  with vault_call_signers_frame [OF assms(2)] assms(1) show ?thesis
    by (simp add: signers_consistent_def)
qed

lemma vault_reachable_consistent: "vault_reachable s \<Longrightarrow> signers_consistent s"
proof (induction rule: vault_reachable.induct)
  case (vault_init deployer daoAddress' withdrawalLimit' requiredSignatures' s)
  then show ?case
    by (auto simp: Vault_constructor_def signers_consistent_def split: if_splits)
next
  case (vault_step s sender now ext op s')
  then show ?case by (blast intro: vault_call_consistent)
qed

lemma vault_call_requiredSignatures_min:
  "1 \<le> requiredSignatures s \<Longrightarrow> vault_call s sender now ext op = Inr s' \<Longrightarrow>
     1 \<le> requiredSignatures s'"
  by (cases op) (auto simp: vault_defs MIN_SIGNATURES_def Let_def
      intro: after_external_call_requiredSignatures(1)
      split: if_splits sum.splits call_result.splits)

lemma vault_reachable_requiredSignatures_min: "vault_reachable s \<Longrightarrow> 1 \<le> requiredSignatures s"
proof (induction rule: vault_reachable.induct)
  case (vault_init deployer daoAddress' withdrawalLimit' requiredSignatures' s)
  then show ?case
    by (auto simp: Vault_constructor_def MIN_SIGNATURES_def split: if_splits)
next
  case (vault_step s sender now ext op s')
  then show ?case by (blast intro: vault_call_requiredSignatures_min)
qed

lemma vault_call_requiredSignatures_max:
  assumes "requiredSignatures s \<le> length (signerList s)" "vault_call s sender now ext op = Inr s'"
  shows "requiredSignatures s' \<le> length (signerList s')"
proof (cases "\<exists>a. op = RemoveSigner a")
  case True
  then obtain a where op: "op = RemoveSigner a" by blast
  with assms(2) have gt: "requiredSignatures s < length (signerList s)"
    and s': "s' = s\<lparr>authorizedSigners := (authorizedSigners s)(a := False),
                    signerList := swapRemove a (signerList s)\<rparr>"
    by (auto simp: removeSigner_def split: if_splits)
  from swapRemove_length [of "signerList s" a]
  have "length (signerList s) - 1 \<le> length (swapRemove a (signerList s))" by simp
  with gt have "requiredSignatures s \<le> length (swapRemove a (signerList s))" by linarith
  then show ?thesis by (simp add: s')
next
  case False
  with assms show ?thesis
    by (cases op) (auto simp: vault_defs Let_def
        intro: after_external_call_requiredSignatures(2)
        split: if_splits sum.splits call_result.splits)
qed

lemmas factory_consts = MIN_WITHDRAWAL_LIMIT_def MAX_WITHDRAWAL_LIMIT_def
  MIN_REQUIRED_SIGNATURES_def MAX_REQUIRED_SIGNATURES_def MAX_VAULTS_PER_DAO_def
  MAX_UINT256_def MIN_SIGNATURES_def

lemma fresh_vault_reachable:
  assumes "1 \<le> n"
  shows "vault_reachable (fresh_vault 10 n)"
proof -
  from assms have "Vault_constructor 100 20 1000000000000000000 n = Inr (fresh_vault 100 n)"
    by (simp add: Vault_constructor_def fresh_vault_def MIN_SIGNATURES_def)
  then have a: "vault_reachable (fresh_vault 100 n)" by (rule vault_init)
  have "vault_call (fresh_vault 100 n) 100 0 (quiet_call Reverted) (TransferOwnershipVault 10) = Inr (fresh_vault 10 n)"
    by (simp add: transferOwnership_def fresh_vault_def)
  with a show ?thesis by (rule vault_step)
qed

lemma two_signer_vault_reachable: "vault_reachable two_signer_vault"
proof -
  have a: "vault_reachable (fresh_vault 10 1)" by (rule fresh_vault_reachable) simp
  have "vault_call (fresh_vault 10 1) 10 0 (quiet_call Reverted) (AddSigner 11) = Inr two_signer_vault"
    by (simp add: addSigner_def fresh_vault_def two_signer_vault_def MAX_SIGNERS_def)
  with a show ?thesis by (rule vault_step)
qed

lemma paused_vault_reachable: "vault_reachable paused_vault"
proof -
  have a: "vault_reachable (fresh_vault 10 1)" by (rule fresh_vault_reachable) simp
  have "vault_call (fresh_vault 10 1) 10 0 (quiet_call Reverted) (EmergencyPause ''drill'') = Inr paused_vault"
    by (simp add: emergencyPause_def fresh_vault_def paused_vault_def)
  with a show ?thesis by (rule vault_step)
qed

lemma remove_second_signer:
  "removeSigner two_signer_vault 10 11 = Inr (fresh_vault 10 1)"
  by (simp add: removeSigner_def two_signer_vault_def fresh_vault_def swapRemove_def
        swapRemoveFrom.simps fun_eq_iff)

text \<open>
  The vault of the spending-proposal examples is reachable: deployed by signer 11 with
  limit 10 and two required signatures, signer 12 added, 100 units deposited, one proposal
  of 50 created at time 1000, approved by 11, and then by 12 in a call whose transfer
  reverted.
\<close>

lemma proposal_vault_created:
  "vault_reachable (proposal_vault t 0 (\<lambda>_. False) False 100)"
proof -
  let ?s0 = "\<lparr>owner = 11, paused = False, daoAddress = 20, withdrawalLimit = 10,
      requiredSignatures = 2, spendingProposalCount = 0,
      authorizedSigners = (\<lambda>_. False)(11 := True),
      spendingProposals = (\<lambda>_. zero_spendingProposal),
      tokenBalances = (\<lambda>_. 0), signerList = [11], supportedTokens = []\<rparr>"
  let ?s1 = "?s0\<lparr>authorizedSigners := both_signers, signerList := [11, 12]\<rparr>"
  let ?s2 = "?s1\<lparr>tokenBalances := (\<lambda>_. 0)(t := 100),
      supportedTokens := (if t = 0 then [] else [t])\<rparr>"
  have "Vault_constructor 11 20 10 2 = Inr ?s0"
    by (simp add: Vault_constructor_def MIN_SIGNATURES_def)
  then have r0: "vault_reachable ?s0" by (rule vault_init)
  have "vault_call ?s0 11 0 (quiet_call Reverted) (AddSigner 12) = Inr ?s1"
    by (simp add: addSigner_def MAX_SIGNERS_def both_signers_def fun_eq_iff)
  with r0 have r1: "vault_reachable ?s1" by (rule vault_step)
  have "vault_call ?s1 40 0 (quiet_call (Returned True))
      (if t = 0 then DepositETH 100 else DepositToken t 100) = Inr ?s2"
    by (simp add: depositETH_def depositToken_def addSupportedToken_def safeERC20_ok_def
        MAX_UINT256_def)
  with r1 have r2: "vault_reachable ?s2" by (rule vault_step)
  have "vault_call ?s2 11 1000 (quiet_call Reverted) (CreateSpendingProposal t 50 30 ''desc'')
      = Inr (proposal_vault t 0 (\<lambda>_. False) False 100)"
    by (simp add: createSpendingProposal_def proposal_vault_def both_signers_def
        PROPOSAL_DURATION_def MAX_UINT256_def zero_spendingProposal_def Let_def)
  with r2 show ?thesis by (rule vault_step)
qed

lemma proposal_vault_first_approval:
  "vault_reachable (proposal_vault t 1 (\<lambda>a. a = 11) False 100)"
proof -
  have "vault_call (proposal_vault t 0 (\<lambda>_. False) False 100) 11 2000 (quiet_call Reverted)
      (ApproveSpendingProposal 1) = Inr (proposal_vault t 1 (\<lambda>a. a = 11) False 100)"
    by (simp add: approveSpendingProposal_def proposal_vault_def both_signers_def
        MAX_UINT256_def Let_def fun_eq_iff)
  with proposal_vault_created show ?thesis by (rule vault_step)
qed

lemma proposal_vault_soft_failure:
  "vault_reachable (proposal_vault t 2 both_signers False 100)"
proof -
  have "vault_call (proposal_vault t 1 (\<lambda>a. a = 11) False 100) 12 3000 (quiet_call Reverted)
      (ApproveSpendingProposal 1) = Inr (proposal_vault t 2 both_signers False 100)"
    by (simp add: approveSpendingProposal_def executeSpendingProposal_internal_def
        proposal_vault_def both_signers_def call_success_def try_transfer_def
        MAX_UINT256_def Let_def fun_eq_iff)
  with proposal_vault_first_approval show ?thesis by (rule vault_step)
qed

section \<open>DAO: membership and vote counts\<close>

lemma DAO_constructor_result:
  assumes "DAO_constructor n ow = Inr s"
  shows "owner s = ow" and "members s = (\<lambda>_. False)(ow := True)" and "memberList s = [ow]"
    and "memberCount s = 1" and "quorumPercentage s = 51" and "proposals s = (\<lambda>_. zero_proposal)"
    and "ow \<noteq> 0" and "\<not> paused s"
  using assms by (auto simp: DAO_constructor_def split: if_splits)




lemma vote_result:
  assumes "vote s sender now i b = Inr s'"
  shows "\<not> hasVoted (proposals s i) sender"
    and "s' = s\<lparr>proposals := (proposals s)(i :=
           (if b then (proposals s i)\<lparr>hasVoted := (hasVoted (proposals s i))(sender := True),
                                     yesVotes := yesVotes (proposals s i) + 1\<rparr>
            else (proposals s i)\<lparr>hasVoted := (hasVoted (proposals s i))(sender := True),
                                  noVotes := noVotes (proposals s i) + 1\<rparr>))\<rparr>"
  using assms by (auto simp: vote_def Let_def split: if_splits)















lemma example_dao_constructed: "DAO_constructor ''Test DAO'' 10 = Inr example_dao"
  by (simp add: DAO_constructor_def example_dao_def)


lemma transferred_dao_steps:
  "dao_call example_dao 10 0 (TransferOwnershipDAO 11) = Inr transferred_dao"
  "dao_call transferred_dao 11 0 (RemoveMember 10) = Inr emptied_dao"
  by (simp_all add: transferOwnership_def removeMember_def transferred_dao_def emptied_dao_def
      example_dao_def swapRemove_def swapRemoveFrom.simps fun_eq_iff)

lemma transferred_dao_reachable: "dao_reachable transferred_dao" "dao_reachable emptied_dao"
proof -
  have 0: "dao_reachable example_dao" using example_dao_constructed by (rule dao_init)
  from 0 transferred_dao_steps(1) show 1: "dao_reachable transferred_dao" by (rule dao_step)
  from 1 transferred_dao_steps(2) show "dao_reachable emptied_dao" by (rule dao_step)
qed

lemma card_voters_le: "card {a::address. P a} \<le> 2 ^ 160"
proof -
  have "card {a::address. P a} \<le> card (UNIV :: address set)"
    by (rule card_mono) simp_all
  then show ?thesis by (simp add: card_word)
qed

lemma card_voters_insert:
  assumes "\<not> h sender"
  shows "card {a::address. (h(sender := True)) a} = card {a. h a} + 1"
proof -
  have "{a. (h(sender := True)) a} = insert sender {a. h a}" by auto
  moreover have "finite {a::address. h a}" by simp
  moreover from assms have "sender \<notin> {a. h a}" by simp
  ultimately show ?thesis by simp
qed

lemma vote_counted:
  assumes "votes_counted s" "vote s sender now i b = Inr s'"
  shows "votes_counted s'"
proof -
  note r = vote_result [OF assms(2)]
  from assms(1) have c: "yesVotes (proposals s j) + noVotes (proposals s j)
             = card {a. hasVoted (proposals s j) a}" for j
    by (simp add: votes_counted_def)
  have "yesVotes (proposals s' j) + noVotes (proposals s' j)
             = card {a. hasVoted (proposals s' j) a}" for j
  proof (cases "j = i")
    case True
    with c [of i] card_voters_insert [of "hasVoted (proposals s i)" sender] r(1) show ?thesis
      by (cases b) (simp_all add: r(2))
  next
    case False
    with c [of j] show ?thesis by (simp add: r(2))
  qed
  moreover from assms(1) have "memberCount s' \<le> 1000" "quorumPercentage s' \<le> 100"
    by (simp_all add: r(2) votes_counted_def)
  ultimately show ?thesis by (simp add: votes_counted_def)
qed

lemmas dao_defs = addMember_def removeMember_def propose_def executeProposal_def
  attachVault_def detachVault_def setQuorumPercentage_def pause_def unpause_def
  transferOwnership_def renounceOwnership_def

lemma dao_call_counted:
  assumes "votes_counted s" "dao_call s sender now op = Inr s'"
  shows "votes_counted s'"
proof (cases "\<exists>i b. op = Vote i b")
  case True
  with assms show ?thesis by (auto intro: vote_counted)
next
  case False
  with assms show ?thesis
    by (cases op) (auto simp: votes_counted_def dao_defs Let_def split: if_splits)
qed

lemma dao_reachable_counted: "dao_reachable s \<Longrightarrow> votes_counted s"
proof (induction rule: dao_reachable.induct)
  case (dao_init name' owner' s)
  then show ?case
    by (simp add: votes_counted_def DAO_constructor_result zero_proposal_def)
next
  case (dao_step s sender now op s')
  then show ?case by (blast intro: dao_call_counted)
qed


lemma reachable_no_overflow:
  assumes "dao_reachable s"
  shows "yesVotes (proposals s i) + noVotes (proposals s i) \<le> MAX_UINT256"
    and "memberCount s * quorumPercentage s \<le> MAX_UINT256"
proof -
  from assms have c: "votes_counted s" by (rule dao_reachable_counted)
  have big: "(2::nat) ^ 160 \<le> MAX_UINT256" "(100000::nat) \<le> MAX_UINT256"
    by (simp_all add: MAX_UINT256_def)
  from c have "yesVotes (proposals s i) + noVotes (proposals s i) \<le> 2 ^ 160"
    using card_voters_le [of "hasVoted (proposals s i)"] by (simp add: votes_counted_def)
  with big(1) show "yesVotes (proposals s i) + noVotes (proposals s i) \<le> MAX_UINT256"
    by linarith
  from c have "memberCount s \<le> 1000" "quorumPercentage s \<le> 100"
    by (simp_all add: votes_counted_def)
  then have "memberCount s * quorumPercentage s \<le> 1000 * 100" by (rule mult_le_mono)
  with big(2) show "memberCount s * quorumPercentage s \<le> MAX_UINT256" by linarith
qed

lemma scenarioA_reachable: "dao_reachable (scenarioA_dao False) \<and> dao_reachable (scenarioA_dao True)"
proof -
  have 0: "dao_reachable example_dao" using example_dao_constructed by (rule dao_init)
  have "dao_call example_dao 10 1000 (Propose ''T'' ''D'' 3600) =
      Inr (example_dao\<lparr>proposalCount := 1, proposals := (\<lambda>_. zero_proposal)(1 :=
         zero_proposal\<lparr>proposal_id := 1, title := ''T'', description := ''D'',
           deadline := 4600, proposer := 10\<rparr>)\<rparr>)"
    by (simp add: propose_def example_dao_def MIN_PROPOSAL_DURATION_def MAX_PROPOSAL_DURATION_def
        MAX_UINT256_def Let_def)
  with 0 have 1: "dao_reachable (example_dao\<lparr>proposalCount := 1, proposals := (\<lambda>_. zero_proposal)(1 :=
         zero_proposal\<lparr>proposal_id := 1, title := ''T'', description := ''D'',
           deadline := 4600, proposer := 10\<rparr>)\<rparr>)" by (rule dao_step)
  have "dao_call (example_dao\<lparr>proposalCount := 1, proposals := (\<lambda>_. zero_proposal)(1 :=
         zero_proposal\<lparr>proposal_id := 1, title := ''T'', description := ''D'',
           deadline := 4600, proposer := 10\<rparr>)\<rparr>) 10 2000 (Vote 1 True) = Inr (scenarioA_dao False)"
    by (simp add: vote_def example_dao_def scenarioA_dao_def zero_proposal_def MAX_UINT256_def
        Let_def fun_eq_iff)
  with 1 have 2: "dao_reachable (scenarioA_dao False)" by (rule dao_step)
  have "dao_call (scenarioA_dao False) 10 3000 PauseDAO = Inr (scenarioA_dao True)"
    by (simp add: pause_def scenarioA_dao_def example_dao_def)
  with 2 have "dao_reachable (scenarioA_dao True)" by (rule dao_step)
  with 2 show ?thesis by simp
qed

section \<open>Claims about the DAO\<close>

text \<open>
  C1, as stated: \<open>executeProposal\<close> succeeds if and only if the deadline has passed,
  the proposal is not executed, the quorum is reached and yes-votes exceed no-votes.
  The function is \<open>whenNotPaused\<close>: in a paused DAO the call is rejected although all
  four conditions hold. (The state is the one of a DAO whose owner proposed with
  duration 3600 at time 1000, voted yes, and paused.)
\<close>

theorem executeProposal_rejected_while_paused:
  "dao_reachable (scenarioA_dao True)
   \<and> 0 < (1::nat) \<and> 1 \<le> proposalCount (scenarioA_dao True)
   \<and> deadline (proposals (scenarioA_dao True) 1) \<le> 5000
   \<and> \<not> executed (proposals (scenarioA_dao True) 1)
   \<and> memberCount (scenarioA_dao True) * quorumPercentage (scenarioA_dao True) div 100
        \<le> yesVotes (proposals (scenarioA_dao True) 1) + noVotes (proposals (scenarioA_dao True) 1)
   \<and> noVotes (proposals (scenarioA_dao True) 1) < yesVotes (proposals (scenarioA_dao True) 1)
   \<and> executeProposal (scenarioA_dao True) 10 5000 1 = Inl (Revert ''Pausable: paused'')"
  using scenarioA_reachable
  by (simp add: executeProposal_def scenarioA_dao_def example_dao_def)

text \<open>
  C1, amended: for every proposal of a DAO that is not paused, \<open>executeProposal\<close>
  succeeds if and only if \<open>now \<ge> deadline\<close>, the proposal is not executed,
  \<open>yesVotes + noVotes \<ge> memberCount * quorumPercentage / 100\<close> (integer division) and
  \<open>yesVotes > noVotes\<close>; otherwise it is rejected with the reason of the first of these
  that fails, and a call that succeeds marks the proposal executed and changes nothing
  else. In a paused DAO every call is rejected with \<open>Pausable: paused\<close>. In a
  reachable state neither checked sum nor the checked product overflows.
\<close>

theorem executeProposal_outcome:
  "dao_reachable s \<Longrightarrow> 0 < i \<Longrightarrow> i \<le> proposalCount s \<Longrightarrow>
     (paused s \<longrightarrow> executeProposal s sender now i = Inl (Revert ''Pausable: paused''))
     \<and> (\<not> paused s \<longrightarrow>
          ((\<exists>s'. executeProposal s sender now i = Inr s') \<longleftrightarrow>
             (deadline (proposals s i) \<le> now \<and> \<not> executed (proposals s i)
              \<and> memberCount s * quorumPercentage s div 100
                   \<le> yesVotes (proposals s i) + noVotes (proposals s i)
              \<and> noVotes (proposals s i) < yesVotes (proposals s i)))
          \<and> executeProposal s sender now i =
              (if now < deadline (proposals s i) then Inl (Revert ''Voting period not ended'')
               else if executed (proposals s i) then Inl (Revert ''Proposal already executed'')
               else if yesVotes (proposals s i) + noVotes (proposals s i)
                         < memberCount s * quorumPercentage s div 100
                 then Inl (Revert ''Quorum not reached'')
               else if yesVotes (proposals s i) \<le> noVotes (proposals s i)
                 then Inl (Revert ''Proposal rejected'')
               else Inr (s\<lparr>proposals := (proposals s)(i := (proposals s i)\<lparr>executed := True\<rparr>)\<rparr>)))"
proof -
  assume r: "dao_reachable s" and i: "0 < i" "i \<le> proposalCount s"
  note n = reachable_no_overflow(1) [OF r, of i] reachable_no_overflow(2) [OF r]
  have p: "paused s \<longrightarrow> executeProposal s sender now i = Inl (Revert ''Pausable: paused'')"
    by (simp add: executeProposal_def)
  have e: "executeProposal s sender now i =
              (if now < deadline (proposals s i) then Inl (Revert ''Voting period not ended'')
               else if executed (proposals s i) then Inl (Revert ''Proposal already executed'')
               else if yesVotes (proposals s i) + noVotes (proposals s i)
                         < memberCount s * quorumPercentage s div 100
                 then Inl (Revert ''Quorum not reached'')
               else if yesVotes (proposals s i) \<le> noVotes (proposals s i)
                 then Inl (Revert ''Proposal rejected'')
               else Inr (s\<lparr>proposals := (proposals s)(i := (proposals s i)\<lparr>executed := True\<rparr>)\<rparr>))"
    if "\<not> paused s"
    using that i n by (simp add: executeProposal_def Let_def not_le not_less)
  have q: "(\<exists>s'. executeProposal s sender now i = Inr s') \<longleftrightarrow>
             (deadline (proposals s i) \<le> now \<and> \<not> executed (proposals s i)
              \<and> memberCount s * quorumPercentage s div 100
                   \<le> yesVotes (proposals s i) + noVotes (proposals s i)
              \<and> noVotes (proposals s i) < yesVotes (proposals s i))"
    if "\<not> paused s"
    by (subst e [OF that]) (auto simp: not_le not_less)
  from p e q show ?thesis by blast
qed

theorem executeProposal_outcome_witness:
  "executeProposal (scenarioA_dao False) 10 5000 1
     = Inr ((scenarioA_dao False)\<lparr>proposals := (proposals (scenarioA_dao False))(1 :=
              (proposals (scenarioA_dao False) 1)\<lparr>executed := True\<rparr>)\<rparr>)
   \<and> executeProposal (scenarioA_dao False) 10 4000 1 = Inl (Revert ''Voting period not ended'')
   \<and> executeProposal (scenarioA_dao True) 10 5000 1 = Inl (Revert ''Pausable: paused'')"
proof -
  have r: "dao_reachable (scenarioA_dao False)" "dao_reachable (scenarioA_dao True)"
    using scenarioA_reachable by simp_all
  have i: "0 < (1::nat)" "1 \<le> proposalCount (scenarioA_dao False)"
    "1 \<le> proposalCount (scenarioA_dao True)"
    by (simp_all add: scenarioA_dao_def example_dao_def)
  have np: "\<not> paused (scenarioA_dao False)" and p: "paused (scenarioA_dao True)"
    by (simp_all add: scenarioA_dao_def example_dao_def)
  have c: "\<not> 5000 < deadline (proposals (scenarioA_dao False) 1)"
    "\<not> executed (proposals (scenarioA_dao False) 1)"
    "\<not> yesVotes (proposals (scenarioA_dao False) 1) + noVotes (proposals (scenarioA_dao False) 1)
        < memberCount (scenarioA_dao False) * quorumPercentage (scenarioA_dao False) div 100"
    "\<not> yesVotes (proposals (scenarioA_dao False) 1) \<le> noVotes (proposals (scenarioA_dao False) 1)"
    "4000 < deadline (proposals (scenarioA_dao False) 1)"
    by (simp_all add: scenarioA_dao_def example_dao_def)
  from executeProposal_outcome [OF r(1) i(1) i(2), of 10 5000] np
  have "executeProposal (scenarioA_dao False) 10 5000 1 =
              (if 5000 < deadline (proposals (scenarioA_dao False) 1) then Inl (Revert ''Voting period not ended'')
               else if executed (proposals (scenarioA_dao False) 1) then Inl (Revert ''Proposal already executed'')
               else if yesVotes (proposals (scenarioA_dao False) 1) + noVotes (proposals (scenarioA_dao False) 1)
                         < memberCount (scenarioA_dao False) * quorumPercentage (scenarioA_dao False) div 100
                 then Inl (Revert ''Quorum not reached'')
               else if yesVotes (proposals (scenarioA_dao False) 1) \<le> noVotes (proposals (scenarioA_dao False) 1)
                 then Inl (Revert ''Proposal rejected'')
               else Inr ((scenarioA_dao False)\<lparr>proposals := (proposals (scenarioA_dao False))(1 :=
                  (proposals (scenarioA_dao False) 1)\<lparr>executed := True\<rparr>)\<rparr>))"
    by blast
  with c have 1: "executeProposal (scenarioA_dao False) 10 5000 1
     = Inr ((scenarioA_dao False)\<lparr>proposals := (proposals (scenarioA_dao False))(1 :=
              (proposals (scenarioA_dao False) 1)\<lparr>executed := True\<rparr>)\<rparr>)"
    by (simp only: if_False)
  from executeProposal_outcome [OF r(1) i(1) i(2), of 10 4000] np
  have "executeProposal (scenarioA_dao False) 10 4000 1 =
              (if 4000 < deadline (proposals (scenarioA_dao False) 1) then Inl (Revert ''Voting period not ended'')
               else if executed (proposals (scenarioA_dao False) 1) then Inl (Revert ''Proposal already executed'')
               else if yesVotes (proposals (scenarioA_dao False) 1) + noVotes (proposals (scenarioA_dao False) 1)
                         < memberCount (scenarioA_dao False) * quorumPercentage (scenarioA_dao False) div 100
                 then Inl (Revert ''Quorum not reached'')
               else if yesVotes (proposals (scenarioA_dao False) 1) \<le> noVotes (proposals (scenarioA_dao False) 1)
                 then Inl (Revert ''Proposal rejected'')
               else Inr ((scenarioA_dao False)\<lparr>proposals := (proposals (scenarioA_dao False))(1 :=
                  (proposals (scenarioA_dao False) 1)\<lparr>executed := True\<rparr>)\<rparr>))"
    by blast
  with c(5) have 2: "executeProposal (scenarioA_dao False) 10 4000 1 = Inl (Revert ''Voting period not ended'')"
    by (simp only: if_True)
  from executeProposal_outcome [OF r(2) i(1) i(3), of 10 5000] p
  have 3: "executeProposal (scenarioA_dao True) 10 5000 1 = Inl (Revert ''Pausable: paused'')"
    by blast
  from 1 2 3 show ?thesis by blast
qed

text \<open>
  C4, as stated: the owner is always a member, after any sequence of \<open>addMember\<close> and
  \<open>removeMember\<close> operations. Not so once the owner has used Ownable's
  \<open>transferOwnership\<close>, which the DAO inherits and which does not touch the member set:
  in the DAO of founder 10, after the founder transfers the ownership to address 11
  the owner is not a member, and the one \<open>removeMember\<close> operation by which the new
  owner removes the founder succeeds and leaves a DAO with no member at all.
\<close>

theorem owner_not_member_after_transferOwnership:
  "DAO_constructor ''Test DAO'' 10 = Inr example_dao
   \<and> dao_call example_dao 10 0 (TransferOwnershipDAO 11) = Inr transferred_dao
   \<and> dao_reachable transferred_dao
   \<and> owner transferred_dao = 11 \<and> \<not> members transferred_dao (owner transferred_dao)
   \<and> memberList transferred_dao = [10]
   \<and> removeMember transferred_dao 11 10 = Inr emptied_dao
   \<and> foldl dao_tx transferred_dao [(11, 0, RemoveMember 10)] = emptied_dao
   \<and> dao_reachable emptied_dao
   \<and> owner emptied_dao = 11 \<and> \<not> members emptied_dao (owner emptied_dao)
   \<and> memberList emptied_dao = [] \<and> memberCount emptied_dao = 0"
proof -
  have "foldl dao_tx transferred_dao [(11, 0, RemoveMember 10)] = emptied_dao"
    using transferred_dao_steps(2) by (simp add: dao_tx_def)
  moreover have "removeMember transferred_dao 11 10 = Inr emptied_dao"
    using transferred_dao_steps(2) by simp
  moreover have "owner transferred_dao = 11" "\<not> members transferred_dao (owner transferred_dao)"
    "memberList transferred_dao = [10]"
    "owner emptied_dao = 11" "\<not> members emptied_dao (owner emptied_dao)"
    "memberList emptied_dao = []" "memberCount emptied_dao = 0"
    by (simp_all add: transferred_dao_def emptied_dao_def example_dao_def)
  ultimately show ?thesis
    using example_dao_constructed transferred_dao_steps(1) transferred_dao_reachable
    by simp
qed



section \<open>Claims about the Vault\<close>

lemma withdraw_transfer_failure_reverts:
  "transfer_failed t (result ext) \<Longrightarrow> isl (withdraw s sender t a r ext)"
  by (auto simp: withdraw_def transfer_failed_def call_success_def safeERC20_ok_def Let_def)

lemma executeSpendingProposal_internal_reverted_call:
  assumes "\<not> sp_executed (spendingProposals s i)"
    and "amount (spendingProposals s i) \<le> tokenBalances s (token (spendingProposals s i))"
    and "tokenBalances s (token (spendingProposals s i)) \<le> MAX_UINT256"
    and "result ext = Reverted"
  shows "executeSpendingProposal_internal s i ext = Inr s"
proof -
  have p: "(spendingProposals s)(i := (spendingProposals s i)\<lparr>sp_executed := False\<rparr>) = spendingProposals s"
    using assms(1) by (simp add: fun_eq_iff)
  have b: "(tokenBalances s)(t := tokenBalances s t - a + a) = tokenBalances s"
    if "a \<le> tokenBalances s t" for t a
    using that by (simp add: fun_eq_iff)
  show ?thesis
  proof (cases "token (spendingProposals s i) = 0")
    case True
    with assms(2,3,4) p b [of "amount (spendingProposals s i)" 0] show ?thesis
      by (simp add: executeSpendingProposal_internal_def call_success_def Let_def)
  next
    case False
    with assms(2,3,4) p b [of "amount (spendingProposals s i)" "token (spendingProposals s i)"]
    show ?thesis
      by (simp add: executeSpendingProposal_internal_def try_transfer_def Let_def)
  qed
qed

text \<open>
  C2: a failed outgoing transfer makes \<open>withdraw\<close> revert, and makes the execution of a
  spending proposal return with the balance restored and the proposal not executed.
  The two lemmas above show both for a transfer that reverts. For a token whose
  \<open>transfer\<close> reports failure by returning \<open>false\<close>, \<open>withdraw\<close> reverts
  (SafeERC20 reads the boolean), but \<open>_executeSpendingProposal\<close> reads only whether the
  call reverted: the proposal stays executed and the balance stays decremented.
\<close>

theorem token_returning_false_counts_as_paid:
  "vault_reachable (proposal_vault 77 2 both_signers False 100)
   \<and> transfer_failed 77 (Returned False)
   \<and> executeSpendingProposal (proposal_vault 77 2 both_signers False 100) 30 1 (quiet_call (Returned False))
       = Inr (proposal_vault 77 2 both_signers True 50)
   \<and> approveSpendingProposal (proposal_vault 77 1 (\<lambda>a. a = 11) False 100) 12 3000 1 (quiet_call (Returned False))
       = Inr (proposal_vault 77 2 both_signers True 50)
   \<and> executeSpendingProposal (proposal_vault 77 2 both_signers False 100) 30 1 (quiet_call Reverted)
       = Inr (proposal_vault 77 2 both_signers False 100)
   \<and> withdraw (proposal_vault 77 2 both_signers False 100) 20 77 5 30 (quiet_call (Returned False))
       = Inl (Revert ''SafeERC20: ERC20 operation did not succeed'')"
  using proposal_vault_soft_failure [of 77]
  by (simp add: transfer_failed_def executeSpendingProposal_def executeSpendingProposal_internal_def
      approveSpendingProposal_def try_transfer_def
      withdraw_def proposal_vault_def both_signers_def call_success_def safeERC20_ok_def safeERC20_error_def
      MAX_UINT256_def Let_def fun_eq_iff)

text \<open>
  C3, as stated: in every reachable state of a vault, also right after construction
  through the factory, \<open>requiredSignatures\<close> is at most the number of signers.
  The constructor only checks \<open>requiredSignatures \<ge> 1\<close> and the factory admits up to
  20, while a new vault has the factory as its single signer: the factory's
  \<open>createVaultWithCustomParams\<close> with 5 required signatures gives a vault with one
  signer that requires five.
\<close>

theorem requiredSignatures_above_signer_count_after_creation:
  "createVaultWithCustomParams example_vaultFactory 100 10 200 20 (1000000000000000000) 5
     = Inr (200, fresh_vault 10 5, example_vaultFactory_after)
   \<and> vault_reachable (fresh_vault 10 5)
   \<and> length (signerList (fresh_vault 10 5)) = 1
   \<and> requiredSignatures (fresh_vault 10 5) = 5"
proof -
  have "createVaultWithCustomParams example_vaultFactory 100 10 200 20 (1000000000000000000) 5
     = Inr (200, fresh_vault 10 5, example_vaultFactory_after)"
    by (simp add: createVaultWithCustomParams_def createVault_internal_def example_vaultFactory_def
      example_vaultFactory_after_def Vault_constructor_def fresh_vault_def transferOwnership_def
      factory_consts)
  moreover have "vault_reachable (fresh_vault 10 5)" by (rule fresh_vault_reachable) simp
  ultimately show ?thesis by (simp add: fresh_vault_def)
qed

text \<open>
  C3, amended: in every reachable state \<open>requiredSignatures\<close> is at least 1. The
  upper bound by the signer count is not established by the constructor; every call
  that returns keeps it once it holds, and every \<open>updateRequiredSignatures\<close> that
  returns establishes it.
\<close>

theorem requiredSignatures_bounds:
  "vault_reachable s \<Longrightarrow>
     1 \<le> requiredSignatures s
     \<and> (\<forall>sender now ext op s'. vault_call s sender now ext op = Inr s' \<longrightarrow>
          (requiredSignatures s \<le> length (signerList s) \<longrightarrow>
             requiredSignatures s' \<le> length (signerList s'))
          \<and> ((\<exists>n. op = UpdateRequiredSignatures n) \<longrightarrow>
             requiredSignatures s' \<le> length (signerList s')))"
proof -
  assume r: "vault_reachable s"
  have upd: "requiredSignatures s' \<le> length (signerList s')"
    if "vault_call s sender now ext (UpdateRequiredSignatures n) = Inr s'" for sender now ext n s'
    using that by (auto simp: updateRequiredSignatures_def split: if_splits)
  from r have "1 \<le> requiredSignatures s" by (rule vault_reachable_requiredSignatures_min)
  then show ?thesis using upd by (blast intro: vault_call_requiredSignatures_max)
qed

theorem requiredSignatures_bounds_witness:
  "1 \<le> requiredSignatures two_signer_vault
   \<and> requiredSignatures (fresh_vault 10 1) \<le> length (signerList (fresh_vault 10 1))"
proof -
  have c: "vault_call two_signer_vault 10 0 (quiet_call Reverted) (RemoveSigner 11) = Inr (fresh_vault 10 1)"
    by (simp add: remove_second_signer)
  have b: "requiredSignatures two_signer_vault \<le> length (signerList two_signer_vault)"
    by (simp add: two_signer_vault_def fresh_vault_def)
  from requiredSignatures_bounds [OF two_signer_vault_reachable] c b show ?thesis by blast
qed














text \<open>
  C5, as stated: when a returning \<open>approveSpendingProposal\<close> call reaches the threshold
  and the transfer succeeds, the proposal is executed and the balance is decremented by the
  amount. The flag is set and the balance decremented before the native asset is sent,
  and \<open>receive()\<close> has no guard: when the recipient sends the 50 units back to the
  vault while it receives them (or is the vault itself), the call returns with the
  proposal executed and the balance at 100, where it was.
\<close>

theorem approval_executes_but_balance_is_paid_back:
  "vault_reachable (proposal_vault 0 1 (\<lambda>a. a = 11) False 100)
   \<and> \<not> transfer_failed 0 (result pay_back)
   \<and> approveSpendingProposal (proposal_vault 0 1 (\<lambda>a. a = 11) False 100) 12 3000 1 pay_back
       = Inr (proposal_vault 0 2 both_signers True 100)
   \<and> tokenBalances (proposal_vault 0 1 (\<lambda>a. a = 11) False 100) 0 = 100
   \<and> tokenBalances (proposal_vault 0 2 both_signers True 100) 0 = 100"
  using proposal_vault_first_approval [of 0]
  by (simp add: transfer_failed_def pay_back_def approveSpendingProposal_def
      executeSpendingProposal_internal_def after_external_call_def callback_def receive_def
      call_success_def proposal_vault_def both_signers_def MAX_UINT256_def Let_def fun_eq_iff)



text \<open>
  C6, as stated: every \<open>updateWithdrawalLimit\<close> that returns leaves the limit within
  0.01 to 1000 units of the native asset. The vault's function has no bounds check
  (the bounds are constants of VaultFactory, applied when a vault is created): the
  owner can set the limit to 0.
\<close>

theorem updateWithdrawalLimit_accepts_zero:
  "updateWithdrawalLimit (fresh_vault 10 1) 10 0 = Inr ((fresh_vault 10 1)\<lparr>withdrawalLimit := 0\<rparr>)
   \<and> withdrawalLimit ((fresh_vault 10 1)\<lparr>withdrawalLimit := 0\<rparr>) < MIN_WITHDRAWAL_LIMIT"
  by (simp add: updateWithdrawalLimit_def fresh_vault_def MIN_WITHDRAWAL_LIMIT_def)

text \<open>
  C6, amended: both functions are owner-only (any other caller is rejected).
  \<open>updateWithdrawalLimit\<close> by the owner returns for every value and stores it.
  Every \<open>updateRequiredSignatures\<close> that returns stores the given value, which is then
  within 1 and the signer count; a value outside that range is rejected, and the owner's
  call with a value inside it returns.
\<close>

theorem vault_parameter_updates:
  "(sender \<noteq> owner s \<longrightarrow>
      updateWithdrawalLimit s sender newLimit = Inl (Revert ''Ownable: caller is not the owner'')
      \<and> updateRequiredSignatures s sender n = Inl (Revert ''Ownable: caller is not the owner''))
   \<and> (sender = owner s \<longrightarrow>
      updateWithdrawalLimit s sender newLimit = Inr (s\<lparr>withdrawalLimit := newLimit\<rparr>))
   \<and> (\<forall>s'. updateRequiredSignatures s sender n = Inr s' \<longrightarrow>
      sender = owner s \<and> s' = s\<lparr>requiredSignatures := n\<rparr>
      \<and> 1 \<le> requiredSignatures s' \<and> requiredSignatures s' \<le> length (signerList s'))
   \<and> (n < 1 \<or> length (signerList s) < n \<longrightarrow> isl (updateRequiredSignatures s sender n))
   \<and> (sender = owner s \<and> 1 \<le> n \<and> n \<le> length (signerList s) \<longrightarrow>
      updateRequiredSignatures s sender n = Inr (s\<lparr>requiredSignatures := n\<rparr>))"
  by (simp add: updateWithdrawalLimit_def updateRequiredSignatures_def MIN_SIGNATURES_def)

theorem vault_parameter_updates_witness:
  "updateWithdrawalLimit two_signer_vault 10 5 = Inr (two_signer_vault\<lparr>withdrawalLimit := 5\<rparr>)
   \<and> updateRequiredSignatures two_signer_vault 10 2 = Inr (two_signer_vault\<lparr>requiredSignatures := 2\<rparr>)
   \<and> updateRequiredSignatures two_signer_vault 11 2 = Inl (Revert ''Ownable: caller is not the owner'')
   \<and> isl (updateRequiredSignatures two_signer_vault 10 3)"
proof -
  have o: "10 = owner two_signer_vault" and o': "11 \<noteq> owner two_signer_vault"
    and l: "(1::nat) \<le> 2 \<and> 2 \<le> length (signerList two_signer_vault)"
    and l': "length (signerList two_signer_vault) < 3"
    by (simp_all add: two_signer_vault_def fresh_vault_def)
  from vault_parameter_updates [of 10 two_signer_vault 5 2] o l
  have a: "updateWithdrawalLimit two_signer_vault 10 5 = Inr (two_signer_vault\<lparr>withdrawalLimit := 5\<rparr>)"
    and b: "updateRequiredSignatures two_signer_vault 10 2 = Inr (two_signer_vault\<lparr>requiredSignatures := 2\<rparr>)"
    by blast+
  from vault_parameter_updates [of 11 two_signer_vault 5 2] o'
  have c: "updateRequiredSignatures two_signer_vault 11 2 = Inl (Revert ''Ownable: caller is not the owner'')"
    by blast
  from vault_parameter_updates [of 10 two_signer_vault 5 3] l'
  have d: "isl (updateRequiredSignatures two_signer_vault 10 3)" by blast
  from a b c d show ?thesis by blast
qed

text \<open>
  C7, as stated: a removal can return only if the signer count after it is strictly
  greater than \<open>requiredSignatures\<close>. The guard compares the count before the removal
  (\<open>signerList.length > requiredSignatures\<close>): with two signers and one required
  signature the removal returns and leaves exactly one signer.
\<close>

theorem removeSigner_down_to_requiredSignatures:
  "vault_reachable two_signer_vault
   \<and> removeSigner two_signer_vault 10 11 = Inr (fresh_vault 10 1)
   \<and> length (signerList (fresh_vault 10 1)) = requiredSignatures (fresh_vault 10 1)"
  using two_signer_vault_reachable remove_second_signer by (simp add: fresh_vault_def)

text \<open>
  C7, amended: in every reachable state, \<open>removeSigner\<close> is rejected when the signer
  count is at or below \<open>requiredSignatures\<close> (the removal would drop it below); a
  removal that returns takes one signer off the list and leaves the count at or above
  \<open>requiredSignatures\<close>; and the owner's removal of a signer from an unpaused vault with
  more signers than required does return.
\<close>

theorem removeSigner_threshold:
  "vault_reachable s \<Longrightarrow>
     (length (signerList s) \<le> requiredSignatures s \<longrightarrow> isl (removeSigner s sender signer))
     \<and> (\<forall>s'. removeSigner s sender signer = Inr s' \<longrightarrow>
          length (signerList s') = length (signerList s) - 1
          \<and> requiredSignatures s' = requiredSignatures s
          \<and> requiredSignatures s' \<le> length (signerList s'))
     \<and> (sender = owner s \<and> \<not> paused s \<and> signer \<noteq> 0 \<and> authorizedSigners s signer
          \<and> requiredSignatures s < length (signerList s) \<longrightarrow> \<not> isl (removeSigner s sender signer))"
proof -
  assume r: "vault_reachable s"
  then have c: "signers_consistent s" by (rule vault_reachable_consistent)
  have 1: "length (signerList s) \<le> requiredSignatures s \<longrightarrow> isl (removeSigner s sender signer)"
    by (simp add: removeSigner_def)
  have 2: "length (signerList s') = length (signerList s) - 1
          \<and> requiredSignatures s' = requiredSignatures s
          \<and> requiredSignatures s' \<le> length (signerList s')"
    if h: "removeSigner s sender signer = Inr s'" for s'
  proof -
    from h have gt: "requiredSignatures s < length (signerList s)"
      and rs: "requiredSignatures s' = requiredSignatures s"
      by (auto simp: removeSigner_def split: if_splits)
    from removeSigner_consistent(2) [OF c h] gt rs show ?thesis by simp
  qed
  have 3: "sender = owner s \<and> \<not> paused s \<and> signer \<noteq> 0 \<and> authorizedSigners s signer
          \<and> requiredSignatures s < length (signerList s) \<longrightarrow> \<not> isl (removeSigner s sender signer)"
    by (simp add: removeSigner_def)
  from 1 2 3 show ?thesis by blast
qed

theorem removeSigner_threshold_witness:
  "length (signerList (fresh_vault 10 1)) = length (signerList two_signer_vault) - 1
   \<and> requiredSignatures (fresh_vault 10 1) \<le> length (signerList (fresh_vault 10 1))
   \<and> isl (removeSigner (fresh_vault 10 1) 10 100)"
proof -
  have r1: "vault_reachable (fresh_vault 10 1)" by (rule fresh_vault_reachable) simp
  have le: "length (signerList (fresh_vault 10 1)) \<le> requiredSignatures (fresh_vault 10 1)"
    by (simp add: fresh_vault_def)
  from removeSigner_threshold [OF two_signer_vault_reachable, of 10 11] remove_second_signer
  have "length (signerList (fresh_vault 10 1)) = length (signerList two_signer_vault) - 1
     \<and> requiredSignatures (fresh_vault 10 1) \<le> length (signerList (fresh_vault 10 1))"
    by simp
  moreover from removeSigner_threshold [OF r1, of 10 100] le
  have "isl (removeSigner (fresh_vault 10 1) 10 100)" by blast
  ultimately show ?thesis by simp
qed

text \<open>
  C8, as stated: while the vault is paused no operation increases or decreases a tracked
  balance, a plain receipt of the native asset included. \<open>receive()\<close> has no
  \<open>whenNotPaused\<close> modifier: a paused vault that is sent 5 units credits them.
\<close>

theorem paused_vault_receives:
  "vault_reachable paused_vault \<and> paused paused_vault
   \<and> receive paused_vault 30 5 = Inr (paused_vault\<lparr>tokenBalances := (\<lambda>_. 0)(0 := 5)\<rparr>)
   \<and> tokenBalances paused_vault 0 = 0
   \<and> tokenBalances (paused_vault\<lparr>tokenBalances := (\<lambda>_. 0)(0 := 5)\<rparr>) 0 = 5"
  using paused_vault_reachable
  by (simp add: receive_def paused_vault_def fresh_vault_def MAX_UINT256_def)

lemma paused_vault_call_balances:
  "paused s \<Longrightarrow> vault_call s sender now ext op = Inr s' \<Longrightarrow>
     (\<forall>t. tokenBalances s t \<le> tokenBalances s' t)
     \<and> ((\<forall>v. op \<noteq> Receive v) \<longrightarrow> tokenBalances s' = tokenBalances s)"
  by (cases op) (auto simp: vault_defs Let_def split: if_splits)

text \<open>
  C8, amended: while the vault is paused, \<open>depositETH\<close>, \<open>depositToken\<close>,
  \<open>withdraw\<close>, \<open>createSpendingProposal\<close>, \<open>approveSpendingProposal\<close> and
  \<open>executeSpendingProposal\<close> are all rejected; no call decreases a tracked balance,
  and no call other than a plain receipt of the native asset (\<open>receive()\<close>) changes
  one.
\<close>

theorem paused_vault_blocks:
  "paused s \<Longrightarrow>
     depositETH s sender v = Inl (Revert ''Pausable: paused'')
     \<and> depositToken s sender t a ext = Inl (Revert ''Pausable: paused'')
     \<and> isl (withdraw s sender t a r ext)
     \<and> isl (createSpendingProposal s sender now t a r d)
     \<and> isl (approveSpendingProposal s sender now i ext)
     \<and> isl (executeSpendingProposal s sender i ext)
     \<and> (\<forall>op s'. vault_call s sender now ext op = Inr s' \<longrightarrow>
           (\<forall>t. tokenBalances s t \<le> tokenBalances s' t)
           \<and> ((\<forall>v. op \<noteq> Receive v) \<longrightarrow> tokenBalances s' = tokenBalances s))"
proof -
  assume p: "paused s"
  then have "depositETH s sender v = Inl (Revert ''Pausable: paused'')"
    and "depositToken s sender t a ext = Inl (Revert ''Pausable: paused'')"
    and "isl (withdraw s sender t a r ext)"
    and "isl (createSpendingProposal s sender now t a r d)"
    and "isl (approveSpendingProposal s sender now i ext)"
    and "isl (executeSpendingProposal s sender i ext)"
    by (simp_all add: depositETH_def depositToken_def withdraw_def createSpendingProposal_def
        approveSpendingProposal_def executeSpendingProposal_def)
  moreover have "\<forall>op s'. vault_call s sender now ext op = Inr s' \<longrightarrow>
           (\<forall>t. tokenBalances s t \<le> tokenBalances s' t)
           \<and> ((\<forall>v. op \<noteq> Receive v) \<longrightarrow> tokenBalances s' = tokenBalances s)"
    using paused_vault_call_balances [OF p] by blast
  ultimately show ?thesis by blast
qed

theorem paused_vault_blocks_witness:
  "depositETH paused_vault 30 5 = Inl (Revert ''Pausable: paused'')
   \<and> isl (withdraw paused_vault 20 0 5 30 (quiet_call (Returned True)))
   \<and> tokenBalances (paused_vault\<lparr>paused := False\<rparr>) = tokenBalances paused_vault"
proof -
  have p: "paused paused_vault" by (simp add: paused_vault_def)
  have c: "vault_call paused_vault 10 0 (quiet_call Reverted) UnpauseVault = Inr (paused_vault\<lparr>paused := False\<rparr>)"
    by (simp add: unpause_def paused_vault_def fresh_vault_def)
  have n: "\<forall>v. UnpauseVault \<noteq> Receive v" by simp
  from paused_vault_blocks [where s = paused_vault and sender = 30 and v = 5, OF p]
  have 1: "depositETH paused_vault 30 5 = Inl (Revert ''Pausable: paused'')"
    by blast
  from paused_vault_blocks [where s = paused_vault and sender = 20 and t = 0 and a = 5 and r = 30
      and ext = "quiet_call (Returned True)", OF p]
  have 2: "isl (withdraw paused_vault 20 0 5 30 (quiet_call (Returned True)))" by blast
  from paused_vault_blocks [where s = paused_vault and sender = 10 and now = 0 and ext = "quiet_call Reverted", OF p] c n
  have 3: "tokenBalances (paused_vault\<lparr>paused := False\<rparr>) = tokenBalances paused_vault" by blast
  from 1 2 3 show ?thesis by blast
qed

section \<open>Claims about the factories\<close>

lemma createVault_internal_signers:
  assumes "createVault_internal f self sender va d wl rs = Inr (a, v, f')"
  shows "signerList v = [self] \<and> authorizedSigners v = (\<lambda>_. False)(self := True) \<and> owner v = sender"
  using assms
  by (auto simp: createVault_internal_def Vault_constructor_def transferOwnership_def
      split: if_splits)

lemma createVault_internal_returns:
  assumes "sender \<noteq> 0" "d \<noteq> 0"
    and "MIN_WITHDRAWAL_LIMIT \<le> wl" "wl \<le> MAX_WITHDRAWAL_LIMIT"
    and "MIN_REQUIRED_SIGNATURES \<le> rs" "rs \<le> MAX_REQUIRED_SIGNATURES"
    and "length (daoVaults f d) < MAX_VAULTS_PER_DAO" "vaultCount f + 1 \<le> MAX_UINT256"
  shows "\<exists>v f'. createVault_internal f self sender va d wl rs = Inr (va, v, f')
           \<and> daoAddress v = d \<and> withdrawalLimit v = wl \<and> requiredSignatures v = rs"
  using assms
  by (simp add: createVault_internal_def Vault_constructor_def transferOwnership_def
      MIN_SIGNATURES_def MIN_REQUIRED_SIGNATURES_def)

lemma created_vault_signers:
  assumes "sender \<noteq> self"
    and "signerList v = [self] \<and> authorizedSigners v = (\<lambda>_. False)(self := True) \<and> owner v = sender"
  shows "getSigners v = [self] \<and> authorizedSigners v self
     \<and> (\<forall>x. x \<noteq> self \<longrightarrow> \<not> authorizedSigners v x)
     \<and> owner v = sender \<and> \<not> authorizedSigners v sender \<and> sender \<notin> set (getSigners v)"
  using assms by (simp add: getSigners_def)

lemma example_vault_creations:
  shows "createVault example_vaultFactory 100 10 200 20 1000000000000000000
           = Inr (200, fresh_vault 10 1, example_vaultFactory_after)"
    and "createVaultWithCustomParams example_vaultFactory 100 10 200 20 1000000000000000000 5
           = Inr (200, fresh_vault 10 5, example_vaultFactory_after)"
    and "createDefaultVault example_vaultFactory 100 10 200 20
           = Inr (200, fresh_vault 10 1, example_vaultFactory_after)"
  by (simp_all add: createVault_def createVaultWithCustomParams_def createDefaultVault_def
      createVault_internal_def example_vaultFactory_def
      example_vaultFactory_after_def Vault_constructor_def fresh_vault_def transferOwnership_def
      factory_consts)

text \<open>
  C9: each of the three creation functions of VaultFactory returns when the DAO address
  and the caller are not zero, the limit and the signature count are within the factory's
  bounds and the DAO has fewer than five vaults; and right after a vault is created
  through any of them, its signer list is exactly the factory's own address, the caller
  owns the vault, and the caller is not an authorized signer. (The constructor records its
  \<open>msg.sender\<close>, which is the factory; the factory has no function that calls the
  factory itself, so the caller is another address.)
\<close>

theorem factory_created_vault_signers:
  "sender \<noteq> self \<Longrightarrow>
     (\<forall>r a v f'.
        r \<in> {createVault f self sender va d wl,
             createVaultWithCustomParams f self sender va d wl rs,
             createDefaultVault f self sender va d} \<longrightarrow>
        r = Inr (a, v, f') \<longrightarrow>
        getSigners v = [self] \<and> authorizedSigners v self
        \<and> (\<forall>x. x \<noteq> self \<longrightarrow> \<not> authorizedSigners v x)
        \<and> owner v = sender \<and> \<not> authorizedSigners v sender \<and> sender \<notin> set (getSigners v))
     \<and> (sender \<noteq> 0 \<and> d \<noteq> 0 \<and> length (daoVaults f d) < MAX_VAULTS_PER_DAO
          \<and> vaultCount f + 1 \<le> MAX_UINT256 \<longrightarrow>
          (MIN_WITHDRAWAL_LIMIT \<le> wl \<and> wl \<le> MAX_WITHDRAWAL_LIMIT
             \<and> MIN_REQUIRED_SIGNATURES \<le> defaultRequiredSignatures f
             \<and> defaultRequiredSignatures f \<le> MAX_REQUIRED_SIGNATURES \<longrightarrow>
             (\<exists>v f'. createVault f self sender va d wl = Inr (va, v, f')
                \<and> getSigners v = [self] \<and> owner v = sender \<and> \<not> authorizedSigners v sender
                \<and> requiredSignatures v = defaultRequiredSignatures f))
          \<and> (MIN_WITHDRAWAL_LIMIT \<le> wl \<and> wl \<le> MAX_WITHDRAWAL_LIMIT
             \<and> MIN_REQUIRED_SIGNATURES \<le> rs \<and> rs \<le> MAX_REQUIRED_SIGNATURES \<longrightarrow>
             (\<exists>v f'. createVaultWithCustomParams f self sender va d wl rs = Inr (va, v, f')
                \<and> getSigners v = [self] \<and> owner v = sender \<and> \<not> authorizedSigners v sender
                \<and> requiredSignatures v = rs))
          \<and> (MIN_WITHDRAWAL_LIMIT \<le> defaultWithdrawalLimit f
             \<and> defaultWithdrawalLimit f \<le> MAX_WITHDRAWAL_LIMIT
             \<and> MIN_REQUIRED_SIGNATURES \<le> defaultRequiredSignatures f
             \<and> defaultRequiredSignatures f \<le> MAX_REQUIRED_SIGNATURES \<longrightarrow>
             (\<exists>v f'. createDefaultVault f self sender va d = Inr (va, v, f')
                \<and> getSigners v = [self] \<and> owner v = sender \<and> \<not> authorizedSigners v sender
                \<and> requiredSignatures v = defaultRequiredSignatures f)))"
proof -
  assume ne: "sender \<noteq> self"
  have every: "getSigners v = [self] \<and> authorizedSigners v self
        \<and> (\<forall>x. x \<noteq> self \<longrightarrow> \<not> authorizedSigners v x)
        \<and> owner v = sender \<and> \<not> authorizedSigners v sender \<and> sender \<notin> set (getSigners v)"
    if r: "r \<in> {createVault f self sender va d wl,
             createVaultWithCustomParams f self sender va d wl rs,
             createDefaultVault f self sender va d}" and ok: "r = Inr (a, v, f')"
    for r a v f'
  proof -
    from r ok obtain wl' rs' where "createVault_internal f self sender va d wl' rs' = Inr (a, v, f')"
      by (auto simp: createVault_def createVaultWithCustomParams_def createDefaultVault_def)
    from created_vault_signers [OF ne createVault_internal_signers [OF this]] show ?thesis .
  qed
  have some: "\<exists>v f'. createVault_internal f self sender va d wl' rs' = Inr (va, v, f')
                \<and> getSigners v = [self] \<and> owner v = sender \<and> \<not> authorizedSigners v sender
                \<and> requiredSignatures v = rs'"
    if "sender \<noteq> 0" "d \<noteq> 0" "length (daoVaults f d) < MAX_VAULTS_PER_DAO"
      "vaultCount f + 1 \<le> MAX_UINT256"
      "MIN_WITHDRAWAL_LIMIT \<le> wl'" "wl' \<le> MAX_WITHDRAWAL_LIMIT"
      "MIN_REQUIRED_SIGNATURES \<le> rs'" "rs' \<le> MAX_REQUIRED_SIGNATURES"
    for wl' rs'
  proof -
    from createVault_internal_returns [OF that(1,2,5,6,7,8,3,4), of self va]
    obtain v f' where c: "createVault_internal f self sender va d wl' rs' = Inr (va, v, f')"
      and q: "requiredSignatures v = rs'" by blast
    from created_vault_signers [OF ne createVault_internal_signers [OF c]] c q
    show ?thesis by blast
  qed
  from some [of wl "defaultRequiredSignatures f"] some [of wl rs]
    some [of "defaultWithdrawalLimit f" "defaultRequiredSignatures f"]
  have total: "sender \<noteq> 0 \<and> d \<noteq> 0 \<and> length (daoVaults f d) < MAX_VAULTS_PER_DAO
          \<and> vaultCount f + 1 \<le> MAX_UINT256 \<longrightarrow>
          (MIN_WITHDRAWAL_LIMIT \<le> wl \<and> wl \<le> MAX_WITHDRAWAL_LIMIT
             \<and> MIN_REQUIRED_SIGNATURES \<le> defaultRequiredSignatures f
             \<and> defaultRequiredSignatures f \<le> MAX_REQUIRED_SIGNATURES \<longrightarrow>
             (\<exists>v f'. createVault f self sender va d wl = Inr (va, v, f')
                \<and> getSigners v = [self] \<and> owner v = sender \<and> \<not> authorizedSigners v sender
                \<and> requiredSignatures v = defaultRequiredSignatures f))
          \<and> (MIN_WITHDRAWAL_LIMIT \<le> wl \<and> wl \<le> MAX_WITHDRAWAL_LIMIT
             \<and> MIN_REQUIRED_SIGNATURES \<le> rs \<and> rs \<le> MAX_REQUIRED_SIGNATURES \<longrightarrow>
             (\<exists>v f'. createVaultWithCustomParams f self sender va d wl rs = Inr (va, v, f')
                \<and> getSigners v = [self] \<and> owner v = sender \<and> \<not> authorizedSigners v sender
                \<and> requiredSignatures v = rs))
          \<and> (MIN_WITHDRAWAL_LIMIT \<le> defaultWithdrawalLimit f
             \<and> defaultWithdrawalLimit f \<le> MAX_WITHDRAWAL_LIMIT
             \<and> MIN_REQUIRED_SIGNATURES \<le> defaultRequiredSignatures f
             \<and> defaultRequiredSignatures f \<le> MAX_REQUIRED_SIGNATURES \<longrightarrow>
             (\<exists>v f'. createDefaultVault f self sender va d = Inr (va, v, f')
                \<and> getSigners v = [self] \<and> owner v = sender \<and> \<not> authorizedSigners v sender
                \<and> requiredSignatures v = defaultRequiredSignatures f))"
    unfolding createVault_def createVaultWithCustomParams_def createDefaultVault_def by blast
  from every total show ?thesis by blast
qed

theorem factory_created_vault_signers_witness:
  "(\<exists>v f'. createVault example_vaultFactory 100 10 200 20 1000000000000000000 = Inr (200, v, f')
        \<and> getSigners v = [100] \<and> owner v = 10 \<and> \<not> authorizedSigners v 10)
   \<and> (\<exists>v f'. createVaultWithCustomParams example_vaultFactory 100 10 200 20 1000000000000000000 5
          = Inr (200, v, f')
        \<and> getSigners v = [100] \<and> owner v = 10 \<and> \<not> authorizedSigners v 10
        \<and> requiredSignatures v = 5)
   \<and> (\<exists>v f'. createDefaultVault example_vaultFactory 100 10 200 20 = Inr (200, v, f')
        \<and> getSigners v = [100] \<and> owner v = 10 \<and> \<not> authorizedSigners v 10)
   \<and> getSigners (fresh_vault 10 1) = [100] \<and> \<not> authorizedSigners (fresh_vault 10 1) 10"
proof -
  have ne: "(10::address) \<noteq> 100" by simp
  have pre: "(10::address) \<noteq> 0 \<and> (20::address) \<noteq> 0
      \<and> length (daoVaults example_vaultFactory 20) < MAX_VAULTS_PER_DAO
      \<and> vaultCount example_vaultFactory + 1 \<le> MAX_UINT256"
    and lim: "MIN_WITHDRAWAL_LIMIT \<le> 1000000000000000000
      \<and> (1000000000000000000::nat) \<le> MAX_WITHDRAWAL_LIMIT"
    and dlim: "MIN_WITHDRAWAL_LIMIT \<le> defaultWithdrawalLimit example_vaultFactory
      \<and> defaultWithdrawalLimit example_vaultFactory \<le> MAX_WITHDRAWAL_LIMIT"
    and dsig: "MIN_REQUIRED_SIGNATURES \<le> defaultRequiredSignatures example_vaultFactory
      \<and> defaultRequiredSignatures example_vaultFactory \<le> MAX_REQUIRED_SIGNATURES"
    and sig: "MIN_REQUIRED_SIGNATURES \<le> 5 \<and> (5::nat) \<le> MAX_REQUIRED_SIGNATURES"
    by (simp_all add: example_vaultFactory_def factory_consts)
  note t = factory_created_vault_signers [OF ne, where f = example_vaultFactory and va = 200
      and d = 20 and wl = 1000000000000000000 and rs = 5]
  from t pre lim dsig
  have 1: "\<exists>v f'. createVault example_vaultFactory 100 10 200 20 1000000000000000000 = Inr (200, v, f')
        \<and> getSigners v = [100] \<and> owner v = 10 \<and> \<not> authorizedSigners v 10"
    by blast
  from t pre lim sig
  have 2: "\<exists>v f'. createVaultWithCustomParams example_vaultFactory 100 10 200 20 1000000000000000000 5
          = Inr (200, v, f')
        \<and> getSigners v = [100] \<and> owner v = 10 \<and> \<not> authorizedSigners v 10
        \<and> requiredSignatures v = 5"
    by blast
  from t pre dlim dsig
  have 3: "\<exists>v f'. createDefaultVault example_vaultFactory 100 10 200 20 = Inr (200, v, f')
        \<and> getSigners v = [100] \<and> owner v = 10 \<and> \<not> authorizedSigners v 10"
    by blast
  from t example_vault_creations(3)
  have 4: "getSigners (fresh_vault 10 1) = [100] \<and> \<not> authorizedSigners (fresh_vault 10 1) 10"
    by blast
  from 1 2 3 4 show ?thesis by blast
qed

lemma emergencyRemoveDAO_result:
  assumes "emergencyRemoveDAO f sender d = Inr f'"
  shows "userDAOs f' = userDAOs f" and "owner f' = owner f" and "paused f' = paused f"
    and "allDAOs f' = swapRemove d (allDAOs f)"
    and "daoCount f' + 1 = daoCount f"
    and "daoToVault f' = (if daoToVault f d \<noteq> 0 then (daoToVault f)(d := 0) else daoToVault f)"
    and "vaultToDAO f' = (if daoToVault f d \<noteq> 0 then (vaultToDAO f)(daoToVault f d := 0) else vaultToDAO f)"
  using assms
  by (auto simp: emergencyRemoveDAO_def Let_def split: if_splits)

lemma createDAO_at_cap:
  "MAX_DAOS_PER_USER \<le> length (userDAOs f user) \<Longrightarrow> isl (createDAO f user a n)"
  by (simp add: createDAO_def)

lemma createDAO_at_cap_reason:
  "\<not> paused f \<Longrightarrow> 0 < length n \<Longrightarrow> length n \<le> 100 \<Longrightarrow>
     MAX_DAOS_PER_USER \<le> length (userDAOs f user) \<Longrightarrow>
     createDAO f user a n = Inl (Revert ''Max DAOs per user exceeded'')"
  by (simp add: createDAO_def)

lemma remove_unknown_dao:
  "emergencyRemoveDAO full_daoFactory 1 999 = Inr (full_daoFactory\<lparr>daoCount := 9\<rparr>)"
  by (simp add: emergencyRemoveDAO_def full_daoFactory_def swapRemove_def swapRemoveFrom.simps Let_def)

text \<open>
  C10: an \<open>emergencyRemoveDAO\<close> call that returns leaves \<open>userDAOs\<close> as it was, so
  \<open>getUserDAOs\<close> answers the same for every user and a creator at the cap of 10 is
  still rejected by \<open>createDAO\<close>. It changes only \<open>allDAOs\<close> (the removal loop),
  the \<open>daoToVault\<close> entry of the given DAO, the \<open>vaultToDAO\<close> entry of its vault,
  and \<open>daoCount\<close>, which goes down by one whether or not the address was in
  \<open>allDAOs\<close>: the owner's call returns for every non-zero address while
  \<open>daoCount\<close> is positive.
\<close>

theorem emergencyRemoveDAO_frame:
  "(\<forall>f'. emergencyRemoveDAO f sender d = Inr f' \<longrightarrow>
       (\<forall>user. getUserDAOs f' user = getUserDAOs f user)
       \<and> owner f' = owner f \<and> paused f' = paused f
       \<and> (\<forall>x. x \<noteq> d \<longrightarrow> daoToVault f' x = daoToVault f x)
       \<and> (\<forall>v. v \<noteq> daoToVault f d \<longrightarrow> vaultToDAO f' v = vaultToDAO f v)
       \<and> allDAOs f' = swapRemove d (allDAOs f)
       \<and> (d \<notin> set (allDAOs f) \<longrightarrow> allDAOs f' = allDAOs f)
       \<and> daoCount f' + 1 = daoCount f
       \<and> (\<forall>user a n. MAX_DAOS_PER_USER \<le> length (getUserDAOs f user) \<longrightarrow>
             isl (createDAO f' user a n)
             \<and> (\<not> paused f \<and> 0 < length n \<and> length n \<le> 100 \<longrightarrow>
                  createDAO f' user a n = Inl (Revert ''Max DAOs per user exceeded''))))
   \<and> (sender = owner f \<and> d \<noteq> 0 \<and> 0 < daoCount f \<longrightarrow> \<not> isl (emergencyRemoveDAO f sender d))"
proof -
  have 1: "(\<forall>user. getUserDAOs f' user = getUserDAOs f user)
       \<and> owner f' = owner f \<and> paused f' = paused f
       \<and> (\<forall>x. x \<noteq> d \<longrightarrow> daoToVault f' x = daoToVault f x)
       \<and> (\<forall>v. v \<noteq> daoToVault f d \<longrightarrow> vaultToDAO f' v = vaultToDAO f v)
       \<and> allDAOs f' = swapRemove d (allDAOs f)
       \<and> (d \<notin> set (allDAOs f) \<longrightarrow> allDAOs f' = allDAOs f)
       \<and> daoCount f' + 1 = daoCount f
       \<and> (\<forall>user a n. MAX_DAOS_PER_USER \<le> length (getUserDAOs f user) \<longrightarrow>
             isl (createDAO f' user a n)
             \<and> (\<not> paused f \<and> 0 < length n \<and> length n \<le> 100 \<longrightarrow>
                  createDAO f' user a n = Inl (Revert ''Max DAOs per user exceeded'')))"
    if h: "emergencyRemoveDAO f sender d = Inr f'" for f'
  proof -
    note r = emergencyRemoveDAO_result [OF h]
    have a: "\<forall>user. getUserDAOs f' user = getUserDAOs f user"
      by (simp add: getUserDAOs_def r(1))
    have b: "\<forall>x. x \<noteq> d \<longrightarrow> daoToVault f' x = daoToVault f x"
      by (simp add: r(6))
    have c: "\<forall>v. v \<noteq> daoToVault f d \<longrightarrow> vaultToDAO f' v = vaultToDAO f v"
      by (simp add: r(7))
    have e: "d \<notin> set (allDAOs f) \<longrightarrow> allDAOs f' = allDAOs f"
      by (simp add: r(4) swapRemove_absent)
    have g: "\<forall>user a n. MAX_DAOS_PER_USER \<le> length (getUserDAOs f user) \<longrightarrow>
             isl (createDAO f' user a n)
             \<and> (\<not> paused f \<and> 0 < length n \<and> length n \<le> 100 \<longrightarrow>
                  createDAO f' user a n = Inl (Revert ''Max DAOs per user exceeded''))"
      using createDAO_at_cap [of f'] createDAO_at_cap_reason [of f']
      by (simp add: getUserDAOs_def r(1) r(3))
    from a b c e g r(2) r(3) r(4) r(5) show ?thesis by blast
  qed
  have 2: "sender = owner f \<and> d \<noteq> 0 \<and> 0 < daoCount f \<longrightarrow> \<not> isl (emergencyRemoveDAO f sender d)"
    by (simp add: emergencyRemoveDAO_def Let_def)
  from 1 2 show ?thesis by blast
qed

theorem emergencyRemoveDAO_frame_witness:
  "getUserDAOs (full_daoFactory\<lparr>daoCount := 9\<rparr>) 10 = getUserDAOs full_daoFactory 10
   \<and> daoCount (full_daoFactory\<lparr>daoCount := 9\<rparr>) + 1 = daoCount full_daoFactory
   \<and> allDAOs (full_daoFactory\<lparr>daoCount := 9\<rparr>) = allDAOs full_daoFactory
   \<and> createDAO (full_daoFactory\<lparr>daoCount := 9\<rparr>) 10 211 ''Eleventh''
        = Inl (Revert ''Max DAOs per user exceeded'')
   \<and> \<not> isl (emergencyRemoveDAO full_daoFactory 1 205)"
proof -
  have cap: "MAX_DAOS_PER_USER \<le> length (getUserDAOs full_daoFactory 10)"
    and np: "\<not> paused full_daoFactory \<and> 0 < length ''Eleventh'' \<and> length ''Eleventh'' \<le> 100"
    and absent: "999 \<notin> set (allDAOs full_daoFactory)"
    by (simp_all add: full_daoFactory_def getUserDAOs_def MAX_DAOS_PER_USER_def)
  have ok: "1 = owner full_daoFactory \<and> (205::address) \<noteq> 0 \<and> 0 < daoCount full_daoFactory"
    by (simp add: full_daoFactory_def)
  from emergencyRemoveDAO_frame [of full_daoFactory 1 999] remove_unknown_dao cap np absent
  have a: "getUserDAOs (full_daoFactory\<lparr>daoCount := 9\<rparr>) 10 = getUserDAOs full_daoFactory 10
   \<and> daoCount (full_daoFactory\<lparr>daoCount := 9\<rparr>) + 1 = daoCount full_daoFactory
   \<and> allDAOs (full_daoFactory\<lparr>daoCount := 9\<rparr>) = allDAOs full_daoFactory
   \<and> createDAO (full_daoFactory\<lparr>daoCount := 9\<rparr>) 10 211 ''Eleventh''
        = Inl (Revert ''Max DAOs per user exceeded'')"
    by blast
  from emergencyRemoveDAO_frame [of full_daoFactory 1 205] ok
  have b: "\<not> isl (emergencyRemoveDAO full_daoFactory 1 205)" by blast
  from a b show ?thesis by blast
qed

end
